theory Spec2Isabelle
  imports Complex_Main "HOL-Library.Word"
begin

section \<open>Numbers\<close>

text \<open>
  The header computes on \<^verbatim>\<open>double\<close> and \<^verbatim>\<open>std::complex<double>\<close>. A
  \<^verbatim>\<open>double\<close> is modelled as a real number, with the two zeros of IEEE arithmetic:
  \<open>Val x\<close> is the number \<open>x\<close> (\<open>Val 0\<close> is \<open>+0\<close>) and \<open>NegZero\<close> is \<open>-0\<close>. The sign
  of a zero decides which side of a branch cut \<^verbatim>\<open>std::sqrt\<close>, \<^verbatim>\<open>std::log\<close> and
  \<^verbatim>\<open>std::arg\<close> take, so it is kept through every operation. Every operation is otherwise
  the exact one: rounding, overflow, infinities and NaN are not represented. A division
  by zero, which gives an infinity or a NaN on doubles, gives a zero here.
\<close>

datatype double = Val real | NegZero

fun val :: "double \<Rightarrow> real" where
  "val (Val x) = x"
| "val NegZero = 0"

fun signbit :: "double \<Rightarrow> bool" where
  "signbit (Val x) = (x < 0)"
| "signbit NegZero = True"

text \<open>The zero of a given sign, and \<^verbatim>\<open>copysign(m, y)\<close> for a magnitude \<open>m \<ge> 0\<close>.\<close>

definition signed_zero :: "bool \<Rightarrow> double" where
  "signed_zero negative = (if negative then NegZero else Val 0)"

definition copysign :: "real \<Rightarrow> double \<Rightarrow> double" where
  "copysign m y = (if m = 0 then signed_zero (signbit y) else if signbit y then Val (- m) else Val m)"

text \<open>
  The arithmetic of IEEE 754 in round-to-nearest, without the rounding: a sum of two
  zeros is \<open>-0\<close> only if both are, an exact cancellation gives \<open>+0\<close>, the sign of a
  zero product or quotient is the exclusive or of the signs, and \<open>x - y\<close> is \<open>x + (-y)\<close>.
\<close>

instantiation double :: "{zero, one, plus, minus, uminus, times, inverse}"
begin

definition zero_double :: double where
  "zero_double = Val 0"

definition one_double :: double where
  "one_double = Val 1"

definition uminus_double :: "double \<Rightarrow> double" where
  "uminus_double a = (case a of Val x \<Rightarrow> if x = 0 then NegZero else Val (- x) | NegZero \<Rightarrow> Val 0)"

definition plus_double :: "double \<Rightarrow> double \<Rightarrow> double" where
  "plus_double a b = (if a = NegZero \<and> b = NegZero then NegZero else Val (val a + val b))"

definition minus_double :: "double \<Rightarrow> double \<Rightarrow> double" where
  "minus_double a b = a + (- b)"

definition times_double :: "double \<Rightarrow> double \<Rightarrow> double" where
  "times_double a b =
    (if val a * val b = 0 then signed_zero (signbit a \<noteq> signbit b) else Val (val a * val b))"

definition divide_double :: "double \<Rightarrow> double \<Rightarrow> double" where
  "divide_double a b =
    (if val a / val b = 0 then signed_zero (signbit a \<noteq> signbit b) else Val (val a / val b))"

definition inverse_double :: "double \<Rightarrow> double" where
  "inverse_double a = Val 1 div a"

instance ..

end

text \<open>
  The functions of \<^verbatim>\<open><cmath>\<close> the header reaches: they are odd or even, and an odd
  function keeps the sign of a zero argument.
\<close>

definition cos_double :: "double \<Rightarrow> double" where
  "cos_double a = Val (cos (val a))"

definition sin_double :: "double \<Rightarrow> double" where
  "sin_double a = (case a of Val x \<Rightarrow> Val (sin x) | NegZero \<Rightarrow> NegZero)"

definition cosh_double :: "double \<Rightarrow> double" where
  "cosh_double a = Val (cosh (val a))"

definition sinh_double :: "double \<Rightarrow> double" where
  "sinh_double a = (case a of Val x \<Rightarrow> Val (sinh x) | NegZero \<Rightarrow> NegZero)"

text \<open>
  \<^verbatim>\<open>std::atan2(y, x)\<close>: the angle of the point \<open>(x, y)\<close>. For a zero \<open>y\<close> it is a zero
  of the sign of \<open>y\<close> when \<open>x\<close> is positive or \<open>+0\<close>, and \<open>\<pi>\<close> with the sign of \<open>y\<close> when
  \<open>x\<close> is negative or \<open>-0\<close>.
\<close>

definition std_atan2 :: "double \<Rightarrow> double \<Rightarrow> double" where
  "std_atan2 y x =
    (if val y = 0 then (if signbit x then copysign pi y else copysign 0 y)
     else Val (Arg (Complex (val x) (val y))))"

text \<open>
  \<^verbatim>\<open>typedef std::complex<double> complex;\<close> A complex number is its two parts. The
  operators are those of libstdc++ on GCC: sum, difference and negation work part by
  part, the product is \<open>(ac - bd) + (ad + bc) i\<close>, and the quotient is computed by
  Smith's method, as \<^verbatim>\<open>__divdc3\<close> of libgcc does.
\<close>

datatype complex_double = Cx (re: double) (im: double)

instantiation complex_double :: "{zero, one, plus, minus, uminus, times, inverse}"
begin

definition zero_complex_double :: complex_double where
  "zero_complex_double = Cx (Val 0) (Val 0)"

definition one_complex_double :: complex_double where
  "one_complex_double = Cx (Val 1) (Val 0)"

definition uminus_complex_double :: "complex_double \<Rightarrow> complex_double" where
  "uminus_complex_double z = Cx (- re z) (- im z)"

definition plus_complex_double :: "complex_double \<Rightarrow> complex_double \<Rightarrow> complex_double" where
  "plus_complex_double z w = Cx (re z + re w) (im z + im w)"

definition minus_complex_double :: "complex_double \<Rightarrow> complex_double \<Rightarrow> complex_double" where
  "minus_complex_double z w = Cx (re z - re w) (im z - im w)"

definition times_complex_double :: "complex_double \<Rightarrow> complex_double \<Rightarrow> complex_double" where
  "times_complex_double z w =
    Cx (re z * re w - im z * im w) (re z * im w + im z * re w)"

definition divide_complex_double :: "complex_double \<Rightarrow> complex_double \<Rightarrow> complex_double" where
  "divide_complex_double z w =
    (let a = re z; b = im z; c = re w; d = im w
     in if \<bar>val c\<bar> < \<bar>val d\<bar> then
          (let ratio = c / d;
               denom = (c * ratio) + d
           in Cx (((a * ratio) + b) / denom) (((b * ratio) - a) / denom))
        else
          (let ratio = d / c;
               denom = (d * ratio) + c
           in Cx (((b * ratio) + a) / denom) ((b - (a * ratio)) / denom)))"

definition inverse_complex_double :: "complex_double \<Rightarrow> complex_double" where
  "inverse_complex_double z = Cx (Val 1) (Val 0) div z"

instance ..

end

text \<open>The number a complex double stands for, without the signs of its zeros.\<close>

definition exact :: "complex_double \<Rightarrow> complex" where
  "exact z = Complex (val (re z)) (val (im z))"

text \<open>
  A \<^verbatim>\<open>double\<close> converted to \<^verbatim>\<open>complex\<close> has the imaginary part \<open>+0\<close>. The operators
  with one \<^verbatim>\<open>double\<close> operand: \<^verbatim>\<open>x - z\<close> is \<^verbatim>\<open>r = -z; r += x\<close>, which negates
  the imaginary part; the others leave the imaginary part alone or work on both parts;
  \<^verbatim>\<open>x / z\<close> converts \<open>x\<close> and divides.
\<close>

definition of_double :: "double \<Rightarrow> complex_double" where
  "of_double x = Cx x (Val 0)"

definition double_minus_complex :: "double \<Rightarrow> complex_double \<Rightarrow> complex_double" where
  "double_minus_complex x z = Cx (re (- z) + x) (im (- z))"

definition complex_minus_double :: "complex_double \<Rightarrow> double \<Rightarrow> complex_double" where
  "complex_minus_double z x = Cx (re z - x) (im z)"

definition double_times_complex :: "double \<Rightarrow> complex_double \<Rightarrow> complex_double" where
  "double_times_complex x z = Cx (re z * x) (im z * x)"

definition complex_times_double :: "complex_double \<Rightarrow> double \<Rightarrow> complex_double" where
  "complex_times_double z x = Cx (re z * x) (im z * x)"

definition complex_divide_double :: "complex_double \<Rightarrow> double \<Rightarrow> complex_double" where
  "complex_divide_double z x = Cx (re z / x) (im z / x)"

definition double_divide_complex :: "double \<Rightarrow> complex_double \<Rightarrow> complex_double" where
  "double_divide_complex x z = of_double x / z"

text \<open>
  \<^verbatim>\<open>std::sqrt\<close> on a complex number (\<^verbatim>\<open>csqrt\<close> of C99): the square root with a
  non-negative real part, its imaginary part with the sign of the imaginary part of the
  argument. On the negative real axis the argument \<open>-x + 0 i\<close> gives \<open>i sqrt x\<close> and
  \<open>-x - 0 i\<close> gives \<open>-i sqrt x\<close>.
\<close>

definition std_sqrt :: "complex_double \<Rightarrow> complex_double" where
  "std_sqrt z =
    (if val (im z) = 0 then
       (if val (re z) < 0 then Cx (Val 0) (copysign (sqrt (- val (re z))) (im z))
        else Cx (Val (sqrt (val (re z)))) (copysign 0 (im z)))
     else Cx (Val (Re (csqrt (exact z)))) (Val (Im (csqrt (exact z)))))"

text \<open>\<^verbatim>\<open>std::abs\<close>, \<^verbatim>\<open>std::norm\<close> (\<^verbatim>\<open>norm(3+4i) = 25\<close>) and \<^verbatim>\<open>std::arg\<close>.\<close>

definition std_abs :: "complex_double \<Rightarrow> double" where
  "std_abs z = Val (cmod (exact z))"

definition std_norm :: "complex_double \<Rightarrow> double" where
  "std_norm z = re z * re z + im z * im z"

definition std_arg :: "complex_double \<Rightarrow> double" where
  "std_arg z = std_atan2 (im z) (re z)"

text \<open>\<^verbatim>\<open>std::log\<close> on a complex number: \<open>ln |z| + i arg z\<close>.\<close>

definition std_log :: "complex_double \<Rightarrow> complex_double" where
  "std_log z = Cx (Val (ln (cmod (exact z)))) (std_arg z)"

text \<open>
  \<^verbatim>\<open>std::cos\<close> and \<^verbatim>\<open>std::sin\<close> on a complex number, as \<^verbatim>\<open>ccos\<close> and \<^verbatim>\<open>csin\<close>
  of glibc compute them: \<open>cos (x + i y) = cosh (-y) cos x + i sinh (-y) sin x\<close> and
  \<open>sin (x + i y) = cosh y sin x + i sinh y cos x\<close>.
\<close>

definition std_cos :: "complex_double \<Rightarrow> complex_double" where
  "std_cos z = Cx (cosh_double (- im z) * cos_double (re z)) (sinh_double (- im z) * sin_double (re z))"

definition std_sin :: "complex_double \<Rightarrow> complex_double" where
  "std_sin z = Cx (cosh_double (im z) * sin_double (re z)) (sinh_double (im z) * cos_double (re z))"

text \<open>\<^verbatim>\<open>const complex onei(0, 1);\<close>\<close>

definition onei :: complex_double where
  "onei = Cx (Val 0) (Val 1)"

section \<open>Complex inverse trigonometry\<close>

text \<open>
  \<^verbatim>\<open>return -onei * log(onei * z + sqrt(1.0 - z * z));\<close> and
  \<^verbatim>\<open>return -onei * log(       z + sqrt(z * z - 1.0));\<close>
\<close>

definition asin :: "complex_double \<Rightarrow> complex_double" where
  "asin z = - onei * std_log (onei * z + std_sqrt (double_minus_complex (Val 1) (z * z)))"

definition acos :: "complex_double \<Rightarrow> complex_double" where
  "acos z = - onei * std_log (z + std_sqrt (complex_minus_double (z * z) (Val 1)))"

section \<open>Layer and Matrix22\<close>

record Layer =
  thickness :: double
  refractiveIndex :: complex_double

text \<open>
  \<^verbatim>\<open>struct Matrix22\<close> has four \<^verbatim>\<open>complex\<close> members. The record is polymorphic in its
  entries so that the operators below, which only add and multiply entries, can also be
  read on exact complex numbers; the program's matrices have entries of type
  \<^typ>\<open>complex_double\<close>.
\<close>

record 'a Matrix22 =
  m11 :: 'a
  m12 :: 'a
  m21 :: 'a
  m22 :: 'a

text \<open>
  \<^verbatim>\<open>operator*=\<close> works on two references, \<^verbatim>\<open>this\<close> and \<^verbatim>\<open>b\<close>, which may
  designate the same object. The objects live in a store, a list of matrices; a reference
  is an index into it. The body is six statements, each reading the store the statements
  before it have left:
  \<^verbatim>\<open>
    complex x = m11 * b.m11 + m12 * b.m21;
    m12 = m11 * b.m12 + m12 * b.m22;
    m11 = x;
    x = m21 * b.m11 + m22 * b.m21;
    m22 = m21 * b.m12 + m22 * b.m22;
    m21 = x;
    return *this;
  \<close>
  The result is the store; the returned reference is \<open>this\<close>.
\<close>

definition mul_assign :: "nat \<Rightarrow> nat \<Rightarrow> ('a::{plus,times}) Matrix22 list \<Rightarrow> 'a Matrix22 list" where
  "mul_assign this b h0 =
    (let x = m11 (h0 ! this) * m11 (h0 ! b) + m12 (h0 ! this) * m21 (h0 ! b);
         h1 = h0[this := (h0 ! this)\<lparr>m12 := m11 (h0 ! this) * m12 (h0 ! b) + m12 (h0 ! this) * m22 (h0 ! b)\<rparr>];
         h2 = h1[this := (h1 ! this)\<lparr>m11 := x\<rparr>];
         x = m21 (h2 ! this) * m11 (h2 ! b) + m22 (h2 ! this) * m21 (h2 ! b);
         h3 = h2[this := (h2 ! this)\<lparr>m22 := m21 (h2 ! this) * m12 (h2 ! b) + m22 (h2 ! this) * m22 (h2 ! b)\<rparr>];
         h4 = h3[this := (h3 ! this)\<lparr>m21 := x\<rparr>]
     in h4)"

text \<open>
  \<^verbatim>\<open>const Matrix22 operator*(Matrix22 a, const Matrix22& b) { return a *= b; }\<close>
  The left operand is passed by value: the call copies it into a new object (appended to
  the store, so its reference \<open>length h\<close> is fresh), multiplies that object in place by
  the object \<open>b\<close> refers to, and returns a copy of it.
\<close>

definition operator_times :: "('a::{plus,times}) Matrix22 \<Rightarrow> nat \<Rightarrow> 'a Matrix22 list \<Rightarrow> 'a Matrix22" where
  "operator_times a b h =
    (let this = length h;
         h' = mul_assign this b (h @ [a])
     in h' ! this)"

text \<open>
  \<open>A * B\<close> on two values: the right operand is an object of its own, the only one in
  the store when the operator is called.
\<close>

definition times_Matrix22 :: "('a::{plus,times}) Matrix22 \<Rightarrow> 'a Matrix22 \<Rightarrow> 'a Matrix22" where
  "times_Matrix22 A B = operator_times A 0 [B]"

text \<open>
  \<open>A *= B\<close> on two distinct objects, as \<^verbatim>\<open>simulate\<close> uses it on its local
  variables (\<^verbatim>\<open>productMatrixP *= layerMatrixP\<close>): the new value of the left one.
\<close>

definition mul_assign_locals :: "('a::{plus,times}) Matrix22 \<Rightarrow> 'a Matrix22 \<Rightarrow> 'a Matrix22" where
  "mul_assign_locals A B = mul_assign 0 1 [A, B] ! 0"

text \<open>
  \<^verbatim>\<open>Matrix22(1.0, 0.0, 0.0, 1.0)\<close>: each \<^verbatim>\<open>double\<close> is converted to a complex number
  with imaginary part \<open>+0\<close>, which is the \<open>1\<close> and the \<open>0\<close> of \<^typ>\<open>complex_double\<close>.
\<close>

definition identity_Matrix22 :: "('a::{zero,one}) Matrix22" where
  "identity_Matrix22 = \<lparr>m11 = 1, m12 = 0, m21 = 0, m22 = 1\<rparr>"

section \<open>simulate\<close>

text \<open>
  The pointer parameters \<^verbatim>\<open>double *reflectance\<close>, ... are \<^typ>\<open>nat option\<close>:
  \<open>None\<close> is the null pointer, \<open>Some p\<close> points to the \<^verbatim>\<open>double\<close> at
  location \<open>p\<close>. Two pointers may designate the same location. The state the function
  works on has the memory of these locations, the assignments made through the pointers
  (location and value, in the order the program makes them), and what was printed to
  \<^verbatim>\<open>stderr\<close>. A location holds the number stored (\<^const>\<open>val\<close> of the
  \<^verbatim>\<open>double\<close>): the sign of a stored zero is not kept.
\<close>

record sim_state =
  mem :: "nat \<Rightarrow> real"
  stores :: "(nat \<times> real) list"
  stderr :: "string list"

text \<open>\<^verbatim>\<open>*p = v;\<close>\<close>

definition store :: "nat \<Rightarrow> real \<Rightarrow> sim_state \<Rightarrow> sim_state" where
  "store p v s = s\<lparr>mem := (mem s)(p := v), stores := stores s @ [(p, v)]\<rparr>"

text \<open>
  \<^verbatim>\<open>fprintf(stderr, "%s:%d : warning ! the transmittance is maybe false (incident k != 0)", __FILE__, __LINE__);\<close>
  The message is kept as its format string.
\<close>

definition warning :: string where
  "warning = ''%s:%d : warning ! the transmittance is maybe false (incident k != 0)''"

definition fprintf_stderr :: "string \<Rightarrow> sim_state \<Rightarrow> sim_state" where
  "fprintf_stderr msg s = s\<lparr>stderr := stderr s @ [msg]\<rparr>"

text \<open>\<^verbatim>\<open>M_PI\<close>\<close>

definition M_PI :: double where
  "M_PI = Val pi"

text \<open>
  The body of the loop up to the two products (lines 261 to 294): the matrices of the
  layer. \<^verbatim>\<open>layerMatrixP\<close> and \<^verbatim>\<open>layerMatrixS\<close> are declared before the loop and all
  four entries of each are assigned in every iteration. The operators associate to the
  left: \<^verbatim>\<open>1. - (1. - squareIncidentCosTheta) * ratio*ratio\<close> is
  \<open>1 - (((1 - c\<^sup>2) * ratio) * ratio)\<close>, and \<^verbatim>\<open>deltaLayer\<close> is
  \<open>((((-2 * M_PI) * n) * thickness) * layerCosTheta) / lambda\<close>, where the first product is
  one of two \<^verbatim>\<open>double\<close>s.
\<close>

definition layerMatrices ::
  "complex_double \<Rightarrow> double \<Rightarrow> complex_double \<Rightarrow> Layer
    \<Rightarrow> complex_double Matrix22 \<times> complex_double Matrix22" where
  "layerMatrices incidentCosTheta lambda nIncident layer =
    (let squareIncidentCosTheta = incidentCosTheta * incidentCosTheta;
         ratio = nIncident / refractiveIndex layer;
         layerCosTheta =
           std_sqrt (double_minus_complex (Val 1)
                       (double_minus_complex (Val 1) squareIncidentCosTheta * ratio * ratio));
         admittanceLayerP = refractiveIndex layer / layerCosTheta;
         admittanceLayerS = refractiveIndex layer * layerCosTheta;
         deltaLayer =
           complex_divide_double
             (complex_times_double (double_times_complex (- Val 2 * M_PI) (refractiveIndex layer))
                (thickness layer) * layerCosTheta)
             lambda;
         c = std_cos deltaLayer;
         s = std_sin deltaLayer * onei;
         layerMatrixP = \<lparr>m11 = c, m12 = s / admittanceLayerP, m21 = s * admittanceLayerP, m22 = c\<rparr>;
         layerMatrixS = \<lparr>m11 = c, m12 = s / admittanceLayerS, m21 = s * admittanceLayerS, m22 = c\<rparr>
     in (layerMatrixP, layerMatrixS))"

text \<open>
  \<^verbatim>\<open>for (int i = 0; i < layersAmount; ++i) { ... productMatrixP *= layerMatrixP;
  productMatrixS *= layerMatrixS; }\<close>, from the value of \<open>i\<close> on. The counter and the
  bound are \<^verbatim>\<open>int\<close>; \<open>i\<close> stays below \<open>layersAmount\<close>, so \<^verbatim>\<open>++i\<close> does not
  overflow.
\<close>

function layersLoop ::
  "int \<Rightarrow> int \<Rightarrow> complex_double \<Rightarrow> double \<Rightarrow> complex_double \<Rightarrow> Layer list
    \<Rightarrow> complex_double Matrix22 \<times> complex_double Matrix22
    \<Rightarrow> complex_double Matrix22 \<times> complex_double Matrix22" where
  "layersLoop i layersAmount incidentCosTheta lambda nIncident layers productMatrices =
    (if i < layersAmount then
       (let layerMatrix = layerMatrices incidentCosTheta lambda nIncident (layers ! nat i)
        in layersLoop (i + 1) layersAmount incidentCosTheta lambda nIncident layers
             (mul_assign_locals (fst productMatrices) (fst layerMatrix),
              mul_assign_locals (snd productMatrices) (snd layerMatrix)))
     else productMatrices)"
  by pat_completeness auto
termination
  by (relation "measure (\<lambda>(i, layersAmount, _). nat (layersAmount - i))") auto

declare layersLoop.simps [simp del]

text \<open>
  Lines 184 and 238 to 302: \<^verbatim>\<open>int layersAmount = layers.size();\<close> converts the
  size to a 32-bit \<^verbatim>\<open>int\<close>, the value modulo \<open>2^32\<close> read as two's complement (what
  C++20 prescribes and the implementations with a 32-bit \<^verbatim>\<open>int\<close> do); the two products
  start as the identity, and the loop runs. The bound is never above the size, so
  \<^verbatim>\<open>layers[i]\<close> is always in range.
\<close>

definition productMatrices ::
  "complex_double \<Rightarrow> double \<Rightarrow> complex_double \<Rightarrow> Layer list
    \<Rightarrow> complex_double Matrix22 \<times> complex_double Matrix22" where
  "productMatrices incidentCosTheta lambda nIncident layers =
    (let layersAmount = sint (word_of_nat (length layers) :: 32 word)
     in layersLoop 0 layersAmount incidentCosTheta lambda nIncident layers
          (identity_Matrix22, identity_Matrix22))"

text \<open>The local constants of \<^verbatim>\<open>simulate\<close> that its output section reads (lines 207 to 328).\<close>

record sim_locals =
  admittanceIncidentP :: complex_double
  admittanceIncidentS :: complex_double
  exitCosTheta :: complex_double
  admittanceExitP :: complex_double
  admittanceExitS :: complex_double
  productMatrixP :: "complex_double Matrix22"
  productMatrixS :: "complex_double Matrix22"
  bP :: complex_double
  cP :: complex_double
  bS :: complex_double
  cS :: complex_double
  reflectionCoefficientP :: complex_double
  reflectionCoefficientS :: complex_double

definition simulate_locals ::
  "complex_double \<Rightarrow> double \<Rightarrow> complex_double \<Rightarrow> complex_double \<Rightarrow> Layer list \<Rightarrow> sim_locals" where
  "simulate_locals incidentCosTheta lambda nIncident nExit layers =
    (let admittanceIncidentP = nIncident / incidentCosTheta;
         admittanceIncidentS = nIncident * incidentCosTheta;
         squareIncidentCosTheta = incidentCosTheta * incidentCosTheta;
         ratioIncidentExit = nIncident / nExit;
         exitCosTheta =
           std_sqrt (double_minus_complex (Val 1)
                       (double_minus_complex (Val 1) squareIncidentCosTheta
                          * ratioIncidentExit * ratioIncidentExit));
         admittanceExitP = nExit / exitCosTheta;
         admittanceExitS = nExit * exitCosTheta;
         products = productMatrices incidentCosTheta lambda nIncident layers;
         productMatrixP = fst products;
         productMatrixS = snd products;
         bP = m11 productMatrixP + m12 productMatrixP * admittanceExitP;
         cP = m21 productMatrixP + m22 productMatrixP * admittanceExitP;
         bS = m11 productMatrixS + m12 productMatrixS * admittanceExitS;
         cS = m21 productMatrixS + m22 productMatrixS * admittanceExitS;
         reflectionCoefficientP = (bP - cP / admittanceIncidentP) / (bP + cP / admittanceIncidentP);
         reflectionCoefficientS = (bS - cS / admittanceIncidentS) / (bS + cS / admittanceIncidentS)
     in \<lparr>admittanceIncidentP = admittanceIncidentP, admittanceIncidentS = admittanceIncidentS,
         exitCosTheta = exitCosTheta,
         admittanceExitP = admittanceExitP, admittanceExitS = admittanceExitS,
         productMatrixP = productMatrixP, productMatrixS = productMatrixS,
         bP = bP, cP = cP, bS = bS, cS = cS,
         reflectionCoefficientP = reflectionCoefficientP,
         reflectionCoefficientS = reflectionCoefficientS\<rparr>)"

text \<open>
  Lines 332 to 370, \<^verbatim>\<open>if (reflectance != 0) { ... }\<close>. The test
  \<^verbatim>\<open>imag(nIncident) != 0.0\<close> is false for both zeros. The absorptance is computed
  from what the two locations hold when the statement runs:
  \<^verbatim>\<open>*absorptance = 1.0 - *reflectance - *transmittance;\<close>
\<close>

definition output_energy ::
  "sim_locals \<Rightarrow> complex_double \<Rightarrow> double \<Rightarrow> complex_double \<Rightarrow> nat option \<Rightarrow> nat option \<Rightarrow> nat option
    \<Rightarrow> sim_state \<Rightarrow> sim_state" where
  "output_energy v incidentCosTheta polarization nIncident reflectance transmittance absorptance s0 =
    (case reflectance of
       None \<Rightarrow> s0
     | Some r \<Rightarrow>
        (let reflectanceP = std_norm (reflectionCoefficientP v);
             reflectanceS = std_norm (reflectionCoefficientS v);
             polP = cos_double polarization;
             polS = sin_double polarization;
             polP = polP * polP;
             polS = polS * polS;
             s1 = store r (val (polP * reflectanceP + polS * reflectanceS)) s0
         in case transmittance of
              None \<Rightarrow> s1
            | Some t \<Rightarrow>
               (let s2 = (if val (im nIncident) \<noteq> 0 then fprintf_stderr warning s1 else s1);
                    transmitionCoefficientP =
                      double_divide_complex (Val 2) (bP v + cP v / admittanceIncidentP v)
                        * incidentCosTheta / exitCosTheta v;
                    transmitionCoefficientS =
                      double_divide_complex (Val 2) (bS v + cS v / admittanceIncidentS v);
                    transmittanceP = std_norm transmitionCoefficientP;
                    transmittanceS = std_norm transmitionCoefficientS;
                    s3 = store t (val (polP * transmittanceP + polS * transmittanceS)) s2
                in case absorptance of
                     None \<Rightarrow> s3
                   | Some a \<Rightarrow> store a (1 - mem s3 r - mem s3 t) s3)))"

text \<open>Lines 372 to 378, \<^verbatim>\<open>if (psi != 0 && delta != 0) { ... }\<close>.\<close>

definition output_psi_delta :: "sim_locals \<Rightarrow> nat option \<Rightarrow> nat option \<Rightarrow> sim_state \<Rightarrow> sim_state" where
  "output_psi_delta v psi delta s =
    (case psi of
       None \<Rightarrow> s
     | Some p \<Rightarrow>
        (case delta of
           None \<Rightarrow> s
         | Some d \<Rightarrow>
            (let s1 = store p (val (std_atan2 (std_abs (reflectionCoefficientP v))
                                               (std_abs (reflectionCoefficientS v)))) s
             in store d (val (std_arg (reflectionCoefficientP v) - std_arg (reflectionCoefficientS v))) s1)))"

text \<open>
  \<^verbatim>\<open>simulate\<close>, called on the memory \<open>memory\<close>. The vector of layers is passed by
  value; the function has no other state.
\<close>

definition simulate ::
  "complex_double \<Rightarrow> double \<Rightarrow> double \<Rightarrow> complex_double \<Rightarrow> complex_double \<Rightarrow> Layer list
    \<Rightarrow> nat option \<Rightarrow> nat option \<Rightarrow> nat option \<Rightarrow> nat option \<Rightarrow> nat option
    \<Rightarrow> (nat \<Rightarrow> real) \<Rightarrow> sim_state" where
  "simulate incidentCosTheta lambda polarization nIncident nExit layers
      reflectance transmittance absorptance psi delta memory =
    (let v = simulate_locals incidentCosTheta lambda nIncident nExit layers;
         s0 = \<lparr>mem = memory, stores = [], stderr = []\<rparr>;
         s1 = output_energy v incidentCosTheta polarization nIncident
                reflectance transmittance absorptance s0
     in output_psi_delta v psi delta s1)"

text \<open>The memory after a list of assignments, made from left to right.\<close>

definition apply_stores :: "(nat \<Rightarrow> real) \<Rightarrow> (nat \<times> real) list \<Rightarrow> nat \<Rightarrow> real" where
  "apply_stores m ws = foldl (\<lambda>m (p, v). m(p := v)) m ws"

section \<open>The specification's formulas\<close>

text \<open>The product of section 4.2 of the specification, entry by entry.\<close>

definition spec_product :: "('a::{plus,times}) Matrix22 \<Rightarrow> 'a Matrix22 \<Rightarrow> 'a Matrix22" where
  "spec_product A B =
    \<lparr>m11 = m11 A * m11 B + m12 A * m21 B,
     m12 = m11 A * m12 B + m12 A * m22 B,
     m21 = m21 A * m11 B + m22 A * m21 B,
     m22 = m21 A * m12 B + m22 A * m22 B\<rparr>"

text \<open>The matrix of exact complex numbers a matrix of the program stands for.\<close>

definition exact_Matrix22 :: "complex_double Matrix22 \<Rightarrow> complex Matrix22" where
  "exact_Matrix22 A = \<lparr>m11 = exact (m11 A), m12 = exact (m12 A), m21 = exact (m21 A), m22 = exact (m22 A)\<rparr>"

text \<open>
  The formulas of section 4.4 are read on exact complex numbers, with the principal
  square root \<^const>\<open>csqrt\<close>. The program's root differs from it in one case:
  \<^verbatim>\<open>std::sqrt\<close> returns \<open>-i sqrt x\<close>, the opposite of the principal root, when the
  radicand is a negative real \<open>-x\<close> whose imaginary part is \<open>-0\<close>. Whether that is so
  depends on the signs of the zeros in the radicand as the program computes it,
  \<^verbatim>\<open>1. - (1. - squareIncidentCosTheta) * ratio*ratio\<close> with
  \<^verbatim>\<open>ratio = nIncident / n\<close>.
\<close>

definition below_cut :: "complex_double \<Rightarrow> bool" where
  "below_cut x = (im x = NegZero \<and> val (re x) < 0)"

definition snell_radicand :: "complex_double \<Rightarrow> complex_double \<Rightarrow> complex_double \<Rightarrow> complex_double" where
  "snell_radicand cos_inc n_inc n =
    double_minus_complex (Val 1)
      (double_minus_complex (Val 1) (cos_inc * cos_inc) * (n_inc / n) * (n_inc / n))"

text \<open>
  Section 4.4, steps 2 and 3a: the cosine in a medium of index \<open>n\<close> by Snell's law,
  \<open>sqrt (1 - (1 - cos\<theta>_inc\<^sup>2) (n_inc / n)\<^sup>2)\<close>, with the root the program takes.
\<close>

definition spec_cos :: "complex_double \<Rightarrow> complex_double \<Rightarrow> complex_double \<Rightarrow> complex" where
  "spec_cos cos_inc n_inc n =
    (if below_cut (snell_radicand cos_inc n_inc n) then - 1 else 1)
      * csqrt (1 - (1 - (exact cos_inc)\<^sup>2) * (exact n_inc / exact n)\<^sup>2)"

text \<open>
  Step 3: the phase thickness \<open>\<delta> = -2\<pi> n_layer thickness cos\<theta>_layer / \<lambda>\<close>, the
  transfer matrix with \<open>m11 = m22 = cos \<delta>\<close>, \<open>m12 = i sin \<delta> / Y\<close>,
  \<open>m21 = i sin \<delta> Y\<close>, for the admittances \<open>Yp = n / cos\<theta>\<close> and \<open>Ys = n cos\<theta>\<close>.
\<close>

definition spec_phase_thickness :: "complex_double \<Rightarrow> double \<Rightarrow> complex_double \<Rightarrow> Layer \<Rightarrow> complex" where
  "spec_phase_thickness cos_inc lambda n_inc layer =
    - 2 * complex_of_real pi * exact (refractiveIndex layer) * complex_of_real (val (thickness layer))
      * spec_cos cos_inc n_inc (refractiveIndex layer) / complex_of_real (val lambda)"

definition spec_transfer_matrix :: "complex \<Rightarrow> complex \<Rightarrow> complex Matrix22" where
  "spec_transfer_matrix Y d =
    \<lparr>m11 = cos d, m12 = \<i> * sin d / Y, m21 = \<i> * sin d * Y, m22 = cos d\<rparr>"

definition spec_layer_matrix_P :: "complex_double \<Rightarrow> double \<Rightarrow> complex_double \<Rightarrow> Layer \<Rightarrow> complex Matrix22" where
  "spec_layer_matrix_P cos_inc lambda n_inc layer =
    spec_transfer_matrix
      (exact (refractiveIndex layer) / spec_cos cos_inc n_inc (refractiveIndex layer))
      (spec_phase_thickness cos_inc lambda n_inc layer)"

definition spec_layer_matrix_S :: "complex_double \<Rightarrow> double \<Rightarrow> complex_double \<Rightarrow> Layer \<Rightarrow> complex Matrix22" where
  "spec_layer_matrix_S cos_inc lambda n_inc layer =
    spec_transfer_matrix
      (exact (refractiveIndex layer) * spec_cos cos_inc n_inc (refractiveIndex layer))
      (spec_phase_thickness cos_inc lambda n_inc layer)"

text \<open>
  Step 3e: each of the two running products is multiplied on the right by the matrix of
  the layer; the products start as the identity and the layers are taken from the first
  (incident side) to the last (exit side).
\<close>

definition spec_step ::
  "complex_double \<Rightarrow> double \<Rightarrow> complex_double \<Rightarrow> complex Matrix22 \<times> complex Matrix22 \<Rightarrow> Layer
    \<Rightarrow> complex Matrix22 \<times> complex Matrix22" where
  "spec_step cos_inc lambda n_inc products layer =
    (spec_product (fst products) (spec_layer_matrix_P cos_inc lambda n_inc layer),
     spec_product (snd products) (spec_layer_matrix_S cos_inc lambda n_inc layer))"

definition spec_running_products ::
  "complex_double \<Rightarrow> double \<Rightarrow> complex_double \<Rightarrow> Layer list \<Rightarrow> complex Matrix22 \<times> complex Matrix22" where
  "spec_running_products cos_inc lambda n_inc layers =
    foldl (spec_step cos_inc lambda n_inc) (identity_Matrix22, identity_Matrix22) layers"

text \<open>
  Steps 4 to 6: the reflection and transmission coefficients of one polarization basis,
  from the product matrix \<open>M\<close> of the basis, the incident admittance and the exit
  admittance: \<open>B = M.m11 + M.m12 Y_exit\<close>, \<open>C = M.m21 + M.m22 Y_exit\<close>,
  \<open>r = (B - C / Y_inc) / (B + C / Y_inc)\<close>, \<open>t = 2 / (B + C / Y_inc)\<close>.
\<close>

definition spec_r :: "complex Matrix22 \<Rightarrow> complex \<Rightarrow> complex \<Rightarrow> complex" where
  "spec_r M Y_inc Y_exit =
    (let B = m11 M + m12 M * Y_exit;
         C = m21 M + m22 M * Y_exit
     in (B - C / Y_inc) / (B + C / Y_inc))"

definition spec_t :: "complex Matrix22 \<Rightarrow> complex \<Rightarrow> complex \<Rightarrow> complex" where
  "spec_t M Y_inc Y_exit =
    (let B = m11 M + m12 M * Y_exit;
         C = m21 M + m22 M * Y_exit
     in 2 / (B + C / Y_inc))"

text \<open>
  Steps 5 and 6: the sum of the squared magnitudes of the P and the S coefficient,
  weighted by \<open>cos\<^sup>2\<close> and \<open>sin\<^sup>2\<close> of the polarization angle.
\<close>

definition spec_weighted :: "double \<Rightarrow> complex \<Rightarrow> complex \<Rightarrow> real" where
  "spec_weighted polarization a_P a_S =
    (cos (val polarization))\<^sup>2 * (cmod a_P)\<^sup>2 + (sin (val polarization))\<^sup>2 * (cmod a_S)\<^sup>2"

text \<open>Step 8: \<open>atan2 (y, x)\<close> is the angle of the point \<open>(x, y)\<close>.\<close>

definition spec_atan2 :: "real \<Rightarrow> real \<Rightarrow> real" where
  "spec_atan2 y x = Arg (Complex x y)"

section \<open>Cosine and sine of a complex number\<close>

text \<open>
  The real and imaginary parts of the complex cosine and sine, from their power series:
  \<open>cos (i y) = cosh y\<close> and \<open>sin (i y) = i sinh y\<close>.
\<close>

lemma ii_power_even: "\<i> ^ (2 * k) = (- 1) ^ k"
  by (simp add: power_mult)

lemma cos_ii_times: "cos (\<i> * complex_of_real y) = complex_of_real (cosh y)"
proof -
  have coeff: "cos_coeff n *\<^sub>R (\<i> * complex_of_real y) ^ n
              = complex_of_real (if even n then y ^ n /\<^sub>R fact n else 0)" for n
  proof (cases "even n")
    case True
    then obtain k where n: "n = 2 * k"
      by (elim evenE)
    have sq: "(- 1 :: real) ^ k * (- 1) ^ k = 1"
      by (simp flip: power_mult_distrib)
    have p: "(\<i> * complex_of_real y) ^ n = complex_of_real ((- 1) ^ k * y ^ n)"
      by (simp add: n power_mult_distrib power_mult power_minus [of "(complex_of_real y)\<^sup>2"])
    have "cos_coeff n * ((- 1) ^ k * y ^ n) = ((- 1) ^ k * (- 1) ^ k) * y ^ n / fact n"
      by (simp add: n cos_coeff_def)
    then have "cos_coeff n * ((- 1) ^ k * y ^ n) = y ^ n /\<^sub>R fact n"
      by (simp only: sq) (simp add: divide_inverse mult.commute)
    then show ?thesis
      using True by (simp add: p scaleR_conv_of_real flip: of_real_mult)
  next
    case False
    then show ?thesis
      by (simp add: cos_coeff_def)
  qed
  have "(\<lambda>n. cos_coeff n *\<^sub>R (\<i> * complex_of_real y) ^ n) sums cos (\<i> * complex_of_real y)"
    by (rule cos_converges)
  then have "(\<lambda>n. complex_of_real (if even n then y ^ n /\<^sub>R fact n else 0))
               sums cos (\<i> * complex_of_real y)"
    by (simp only: coeff)
  moreover have "(\<lambda>n. complex_of_real (if even n then y ^ n /\<^sub>R fact n else 0))
               sums complex_of_real (cosh y)"
    by (intro sums_of_real cosh_converges)
  ultimately show ?thesis
    by (rule sums_unique2)
qed

lemma sin_ii_times: "sin (\<i> * complex_of_real y) = \<i> * complex_of_real (sinh y)"
proof -
  have coeff: "sin_coeff n *\<^sub>R (\<i> * complex_of_real y) ^ n
              = \<i> * complex_of_real (if even n then 0 else y ^ n /\<^sub>R fact n)" for n
  proof (cases "even n")
    case True
    then show ?thesis
      by (simp add: sin_coeff_def)
  next
    case False
    then obtain k where n: "n = 2 * k + 1"
      by (elim oddE)
    have sq: "(- 1 :: real) ^ k * (- 1) ^ k = 1"
      by (simp flip: power_mult_distrib)
    have p: "(\<i> * complex_of_real y) ^ n = \<i> * complex_of_real ((- 1) ^ k * y ^ n)"
      by (simp add: n power_mult_distrib power_mult power_minus [of "(complex_of_real y)\<^sup>2"])
    have "sin_coeff n * ((- 1) ^ k * y ^ n) = ((- 1) ^ k * (- 1) ^ k) * y ^ n / fact n"
      by (simp add: n sin_coeff_def)
    then have "sin_coeff n * ((- 1) ^ k * y ^ n) = y ^ n /\<^sub>R fact n"
      by (simp only: sq) (simp add: divide_inverse mult.commute)
    then show ?thesis
      using False by (simp add: p scaleR_conv_of_real flip: of_real_mult)
  qed
  have "(\<lambda>n. sin_coeff n *\<^sub>R (\<i> * complex_of_real y) ^ n) sums sin (\<i> * complex_of_real y)"
    by (rule sin_converges)
  then have "(\<lambda>n. \<i> * complex_of_real (if even n then 0 else y ^ n /\<^sub>R fact n))
               sums sin (\<i> * complex_of_real y)"
    by (simp only: coeff)
  moreover have "(\<lambda>n. \<i> * complex_of_real (if even n then 0 else y ^ n /\<^sub>R fact n))
               sums (\<i> * complex_of_real (sinh y))"
    by (intro sums_mult sums_of_real sinh_converges)
  ultimately show ?thesis
    by (rule sums_unique2)
qed

lemma cos_Complex: "cos (Complex x y) = Complex (cos x * cosh y) (- (sin x * sinh y))"
proof -
  have "Complex x y = complex_of_real x + \<i> * complex_of_real y"
    by (simp add: complex_eq_iff)
  then have "cos (Complex x y) = cos (complex_of_real x + \<i> * complex_of_real y)"
    by (rule arg_cong)
  then show ?thesis
    by (simp add: cos_add cos_ii_times sin_ii_times cos_of_real sin_of_real complex_eq_iff)
qed

lemma sin_Complex: "sin (Complex x y) = Complex (sin x * cosh y) (cos x * sinh y)"
proof -
  have "Complex x y = complex_of_real x + \<i> * complex_of_real y"
    by (simp add: complex_eq_iff)
  then have "sin (Complex x y) = sin (complex_of_real x + \<i> * complex_of_real y)"
    by (rule arg_cong)
  then show ?thesis
    by (simp add: sin_add cos_ii_times sin_ii_times cos_of_real sin_of_real complex_eq_iff)
qed


section \<open>The arithmetic of doubles\<close>

lemma val_signed_zero: "val (signed_zero negative) = 0"
  by (simp add: signed_zero_def)

lemma val_uminus: "val (- a) = - val a"
  by (cases a) (simp_all add: uminus_double_def)

lemma val_plus: "val (a + b) = val a + val b"
  by (cases a; cases b) (simp_all add: plus_double_def)

lemma val_minus: "val (a - b) = val a - val b"
  by (simp add: minus_double_def val_plus val_uminus)

lemma val_times: "val (a * b) = val a * val b"
  by (simp add: times_double_def val_signed_zero)

lemma val_divide: "val (a / b) = val a / val b"
  by (simp add: divide_double_def val_signed_zero)

lemmas val_arith = val_uminus val_plus val_minus val_times val_divide

lemma smith_quotient:
  fixes a b c d :: real
  shows "(if \<bar>c\<bar> < \<bar>d\<bar> then (a * (c / d) + b) / (c * (c / d) + d)
          else (b * (d / c) + a) / (d * (d / c) + c))
         = (a * c + b * d) / (c\<^sup>2 + d\<^sup>2)"
    and "(if \<bar>c\<bar> < \<bar>d\<bar> then (b * (c / d) - a) / (c * (c / d) + d)
          else (b - a * (d / c)) / (d * (d / c) + c))
         = (b * c - a * d) / (c\<^sup>2 + d\<^sup>2)"
proof -
  have sum: "c\<^sup>2 + d\<^sup>2 \<noteq> 0" if "c \<noteq> 0 \<or> d \<noteq> 0"
    using that by (simp add: sum_power2_eq_zero_iff)
  have first: "(a * (c / d) + b) / (c * (c / d) + d) = (a * c + b * d) / (c\<^sup>2 + d\<^sup>2)"
    "(b * (c / d) - a) / (c * (c / d) + d) = (b * c - a * d) / (c\<^sup>2 + d\<^sup>2)" if "d \<noteq> 0"
  proof -
    have "c * (c / d) + d = (c\<^sup>2 + d\<^sup>2) / d" "a * (c / d) + b = (a * c + b * d) / d"
      "b * (c / d) - a = (b * c - a * d) / d"
      using that by (simp_all add: field_simps power2_eq_square)
    then show "(a * (c / d) + b) / (c * (c / d) + d) = (a * c + b * d) / (c\<^sup>2 + d\<^sup>2)"
      "(b * (c / d) - a) / (c * (c / d) + d) = (b * c - a * d) / (c\<^sup>2 + d\<^sup>2)"
      using that by simp_all
  qed
  have second: "(b * (d / c) + a) / (d * (d / c) + c) = (a * c + b * d) / (c\<^sup>2 + d\<^sup>2)"
    "(b - a * (d / c)) / (d * (d / c) + c) = (b * c - a * d) / (c\<^sup>2 + d\<^sup>2)" if "c \<noteq> 0"
  proof -
    have "d * (d / c) + c = (c\<^sup>2 + d\<^sup>2) / c" "b * (d / c) + a = (a * c + b * d) / c"
      "b - a * (d / c) = (b * c - a * d) / c"
      using that by (simp_all add: field_simps power2_eq_square)
    then show "(b * (d / c) + a) / (d * (d / c) + c) = (a * c + b * d) / (c\<^sup>2 + d\<^sup>2)"
      "(b - a * (d / c)) / (d * (d / c) + c) = (b * c - a * d) / (c\<^sup>2 + d\<^sup>2)"
      using that by simp_all
  qed
  show "(if \<bar>c\<bar> < \<bar>d\<bar> then (a * (c / d) + b) / (c * (c / d) + d)
          else (b * (d / c) + a) / (d * (d / c) + c))
         = (a * c + b * d) / (c\<^sup>2 + d\<^sup>2)"
  proof (cases "\<bar>c\<bar> < \<bar>d\<bar>")
    case True
    then have "d \<noteq> 0" by auto
    then show ?thesis
      unfolding if_P [OF True] by (rule first(1))
  next
    case False
    show ?thesis
    proof (cases "c = 0")
      case True
      with False show ?thesis by simp
    next
      case nonzero: False
      then show ?thesis
        unfolding if_not_P [OF False] by (rule second(1))
    qed
  qed
  show "(if \<bar>c\<bar> < \<bar>d\<bar> then (b * (c / d) - a) / (c * (c / d) + d)
          else (b - a * (d / c)) / (d * (d / c) + c))
         = (b * c - a * d) / (c\<^sup>2 + d\<^sup>2)"
  proof (cases "\<bar>c\<bar> < \<bar>d\<bar>")
    case True
    then have "d \<noteq> 0" by auto
    then show ?thesis
      unfolding if_P [OF True] by (rule first(2))
  next
    case False
    show ?thesis
    proof (cases "c = 0")
      case True
      with False show ?thesis by simp
    next
      case nonzero: False
      then show ?thesis
        unfolding if_not_P [OF False] by (rule second(2))
    qed
  qed
qed

section \<open>The values of complex doubles\<close>

lemma exact_Cx: "exact (Cx a b) = Complex (val a) (val b)"
  by (simp add: exact_def)

lemma Re_exact: "Re (exact z) = val (re z)"
  by (simp add: exact_def)

lemma Im_exact: "Im (exact z) = val (im z)"
  by (simp add: exact_def)

lemma exact_zero: "exact 0 = 0"
  by (simp add: exact_def zero_complex_double_def complex_eq_iff)

lemma exact_one: "exact 1 = 1"
  by (simp add: exact_def one_complex_double_def complex_eq_iff)

lemma exact_onei: "exact onei = \<i>"
  by (simp add: exact_def onei_def complex_eq_iff)

lemma exact_of_double: "exact (of_double x) = complex_of_real (val x)"
  by (simp add: exact_def of_double_def complex_eq_iff)

lemma exact_uminus: "exact (- z) = - exact z"
  by (simp add: exact_def uminus_complex_double_def val_arith complex_eq_iff)

lemma exact_plus: "exact (z + w) = exact z + exact w"
  by (simp add: exact_def plus_complex_double_def val_arith complex_eq_iff)

lemma exact_minus: "exact (z - w) = exact z - exact w"
  by (simp add: exact_def minus_complex_double_def val_arith complex_eq_iff)

lemma exact_times: "exact (z * w) = exact z * exact w"
  by (simp add: exact_def times_complex_double_def val_arith complex_eq_iff)

lemma exact_divide: "exact (z / w) = exact z / exact w"
proof -
  have "Re (exact (z / w)) = Re (exact z / exact w)"
    using smith_quotient(1) [of "val (re w)" "val (im w)" "val (re z)" "val (im z)"]
    by (simp add: Re_divide Re_exact Im_exact divide_complex_double_def Let_def val_arith
        if_distrib [of re] if_distrib [of val] cong: if_cong)
  moreover have "Im (exact (z / w)) = Im (exact z / exact w)"
    using smith_quotient(2) [of "val (re w)" "val (im w)" "val (im z)" "val (re z)"]
    by (simp add: Im_divide Re_exact Im_exact divide_complex_double_def Let_def val_arith
        if_distrib [of im] if_distrib [of val] cong: if_cong)
  ultimately show ?thesis
    by (simp add: complex_eq_iff)
qed

lemma exact_double_minus_complex: "exact (double_minus_complex x z) = complex_of_real (val x) - exact z"
  by (simp add: exact_def double_minus_complex_def uminus_complex_double_def val_arith complex_eq_iff)

lemma exact_complex_minus_double: "exact (complex_minus_double z x) = exact z - complex_of_real (val x)"
  by (simp add: exact_def complex_minus_double_def val_arith complex_eq_iff)

lemma exact_double_times_complex: "exact (double_times_complex x z) = complex_of_real (val x) * exact z"
  by (simp add: exact_def double_times_complex_def val_arith complex_eq_iff)

lemma exact_complex_times_double: "exact (complex_times_double z x) = exact z * complex_of_real (val x)"
  by (simp add: exact_def complex_times_double_def val_arith complex_eq_iff)

lemma exact_complex_divide_double: "exact (complex_divide_double z x) = exact z / complex_of_real (val x)"
  by (simp add: exact_def complex_divide_double_def val_arith complex_eq_iff)

lemma exact_double_divide_complex: "exact (double_divide_complex x z) = complex_of_real (val x) / exact z"
  by (simp add: double_divide_complex_def exact_divide exact_of_double)

lemmas exact_arith =
  exact_zero exact_one exact_onei exact_of_double exact_uminus exact_plus exact_minus exact_times
  exact_divide exact_double_minus_complex exact_complex_minus_double exact_double_times_complex
  exact_complex_times_double exact_complex_divide_double exact_double_divide_complex

section \<open>The library functions\<close>

lemma val_copysign: "val (copysign m y) = (if signbit y then - m else m)"
  by (simp add: copysign_def val_signed_zero)

lemma signbit_zero_iff: "val y = 0 \<Longrightarrow> signbit y \<longleftrightarrow> y = NegZero"
  by (cases y) simp_all

lemma exact_std_sqrt:
  "exact (std_sqrt z) = (if below_cut z then - csqrt (exact z) else csqrt (exact z))"
proof (cases "val (im z) = 0")
  case False
  then have "\<not> below_cut z"
    by (auto simp add: below_cut_def)
  from False have "std_sqrt z = Cx (Val (Re (csqrt (exact z)))) (Val (Im (csqrt (exact z))))"
    by (simp only: std_sqrt_def if_False)
  then have "exact (std_sqrt z) = csqrt (exact z)"
    by (simp only: exact_Cx val.simps complex.collapse)
  with \<open>\<not> below_cut z\<close> show ?thesis
    by simp
next
  case real: True
  show ?thesis
  proof (cases "val (re z) < 0")
    case True
    have "csqrt (exact z) = \<i> * complex_of_real (sqrt \<bar>Re (exact z)\<bar>)"
      by (rule csqrt_of_real_nonpos) (use real True in \<open>simp_all add: Re_exact Im_exact\<close>)
    also have "\<bar>Re (exact z)\<bar> = - val (re z)"
      using True by (simp add: Re_exact)
    finally have root: "csqrt (exact z) = Complex 0 (sqrt (- val (re z)))"
      by (simp add: complex_eq_iff)
    have "exact (std_sqrt z) = Complex 0 (if im z = NegZero then - sqrt (- val (re z)) else sqrt (- val (re z)))"
      using real True by (simp add: std_sqrt_def exact_Cx val_copysign signbit_zero_iff)
    with True show ?thesis
      by (simp add: root below_cut_def complex_eq_iff)
  next
    case False
    have "csqrt (exact z) = complex_of_real (sqrt (Re (exact z)))"
      by (rule csqrt_of_real_nonneg) (use real False in \<open>simp_all add: Re_exact Im_exact\<close>)
    then have root: "csqrt (exact z) = Complex (sqrt (val (re z))) 0"
      by (simp add: complex_eq_iff Re_exact)
    have "exact (std_sqrt z) = Complex (sqrt (val (re z))) 0"
      using real False by (simp add: std_sqrt_def exact_Cx val_copysign)
    with False show ?thesis
      by (simp add: root below_cut_def)
  qed
qed

lemma val_sin_double: "val (sin_double a) = sin (val a)"
  by (cases a) (simp_all add: sin_double_def)

lemma val_sinh_double: "val (sinh_double a) = sinh (val a)"
  by (cases a) (simp_all add: sinh_double_def)

lemma val_cos_double: "val (cos_double a) = cos (val a)"
  by (simp add: cos_double_def)

lemma val_cosh_double: "val (cosh_double a) = cosh (val a)"
  by (simp add: cosh_double_def)

lemma exact_std_cos: "exact (std_cos z) = cos (exact z)"
  by (simp add: std_cos_def exact_def cos_Complex val_arith val_sin_double val_sinh_double
      val_cos_double val_cosh_double mult.commute)

lemma exact_std_sin: "exact (std_sin z) = sin (exact z)"
  by (simp add: std_sin_def exact_def sin_Complex val_arith val_sin_double val_sinh_double
      val_cos_double val_cosh_double mult.commute)

lemma val_std_norm: "val (std_norm z) = (cmod (exact z))\<^sup>2"
  by (simp add: std_norm_def val_arith cmod_power2 Re_exact Im_exact flip: power2_eq_square)

lemma val_std_abs: "val (std_abs z) = cmod (exact z)"
  by (simp add: std_abs_def)

text \<open>The angle of a point, on exact numbers.\<close>

lemma Arg_of_real_nonneg:
  assumes "0 \<le> x"
  shows "Arg (Complex x 0) = 0"
proof (cases "x = 0")
  case True
  then show ?thesis
    by (simp add: Arg_zero flip: zero_complex.code)
next
  case False
  with assms have "0 < x" by simp
  then have "sgn (Complex x 0) = cis 0"
    by (simp add: sgn_eq complex_eq_iff cmod_eq_Re)
  then show ?thesis
    by (intro cis_Arg_unique) simp_all
qed

lemma Arg_of_real_neg:
  assumes "x < 0"
  shows "Arg (Complex x 0) = pi"
proof -
  from assms have "sgn (Complex x 0) = cis pi"
    by (simp add: sgn_eq complex_eq_iff cmod_eq_Re)
  then show ?thesis
    by (intro cis_Arg_unique) simp_all
qed

lemma val_std_atan2:
  "val (std_atan2 y x) =
    (if val y = 0 then (if signbit x then (if signbit y then - pi else pi) else 0)
     else Arg (Complex (val x) (val y)))"
  by (simp add: std_atan2_def val_copysign)

lemma val_std_atan2_abs:
  "val (std_atan2 (std_abs z) (std_abs w)) = Arg (Complex (cmod (exact w)) (cmod (exact z)))"
  by (simp add: val_std_atan2 std_abs_def Arg_of_real_nonneg)

lemma val_std_arg:
  "val (std_arg z) =
    (if val (im z) = 0 then (if signbit (re z) then (if signbit (im z) then - pi else pi) else 0)
     else Arg (exact z))"
  by (simp add: std_arg_def val_std_atan2 exact_def)

lemma val_std_arg_Arg:
  assumes "Im (exact z) \<noteq> 0 \<or> 0 < Re (exact z)"
  shows "val (std_arg z) = Arg (exact z)"
proof (cases "val (im z) = 0")
  case False
  then show ?thesis
    by (simp add: val_std_arg)
next
  case True
  with assms have pos: "0 < val (re z)"
    by (simp add: Re_exact Im_exact)
  then have "\<not> signbit (re z)"
    by (cases "re z") simp_all
  moreover have "exact z = Complex (val (re z)) 0"
    using True by (simp add: exact_def)
  ultimately show ?thesis
    using True pos by (simp add: val_std_arg Arg_of_real_nonneg)
qed

lemma cis_val_std_arg:
  assumes "exact z \<noteq> 0"
  shows "cis (val (std_arg z)) = sgn (exact z)"
proof (cases "val (im z) = 0")
  case False
  with assms show ?thesis
    by (simp add: val_std_arg cis_Arg)
next
  case True
  then have on_axis: "exact z = Complex (val (re z)) 0"
    by (simp add: exact_def)
  with assms have nonzero: "val (re z) \<noteq> 0"
    by (auto simp add: complex_eq_iff)
  then have sign: "signbit (re z) \<longleftrightarrow> val (re z) < 0"
    by (cases "re z") simp_all
  have "sgn (exact z) = (if val (re z) < 0 then - 1 else 1)"
    using nonzero by (simp add: on_axis sgn_eq complex_eq_iff cmod_eq_Re)
  moreover have "cis (- pi) = - 1"
    by (simp add: complex_eq_iff)
  ultimately show ?thesis
    using True by (simp add: val_std_arg sign)
qed

lemma cis_difference_std_arg:
  assumes "exact z \<noteq> 0" and "exact w \<noteq> 0"
  shows "cis (val (std_arg z - std_arg w)) = cis (Arg (exact z) - Arg (exact w))"
  using assms by (simp add: val_arith cis_val_std_arg cis_Arg flip: cis_divide)

section \<open>Computing with doubles\<close>

lemma signed_zero_simps: "signed_zero True = NegZero" "signed_zero False = Val 0"
  by (simp_all add: signed_zero_def)

lemma plus_double_simps:
  "Val a + Val b = Val (a + b)" "Val a + NegZero = Val a" "NegZero + Val b = Val b"
  "NegZero + NegZero = NegZero"
  by (simp_all add: plus_double_def)

lemma uminus_double_simps:
  "- Val a = (if a = 0 then NegZero else Val (- a))" "- NegZero = Val 0"
  by (simp_all add: uminus_double_def)

lemma times_double_simps:
  "Val a * Val b = (if a * b = 0 then signed_zero ((a < 0) \<noteq> (b < 0)) else Val (a * b))"
  "Val a * NegZero = signed_zero (\<not> a < 0)" "NegZero * Val b = signed_zero (\<not> b < 0)"
  "NegZero * NegZero = Val 0"
  by (simp_all add: times_double_def signed_zero_def)

lemma divide_double_simps:
  "Val a / Val b = (if a / b = 0 then signed_zero ((a < 0) \<noteq> (b < 0)) else Val (a / b))"
  "Val a / NegZero = signed_zero (\<not> a < 0)" "NegZero / Val b = signed_zero (\<not> b < 0)"
  "NegZero / NegZero = Val 0"
  by (simp_all add: divide_double_def signed_zero_def)

lemmas double_arith =
  signed_zero_simps plus_double_simps uminus_double_simps minus_double_def times_double_simps
  divide_double_simps

lemmas complex_double_arith =
  zero_complex_double_def one_complex_double_def uminus_complex_double_def plus_complex_double_def
  minus_complex_double_def times_complex_double_def divide_complex_double_def
  of_double_def double_minus_complex_def complex_minus_double_def double_times_complex_def
  complex_times_double_def complex_divide_double_def double_divide_complex_def onei_def Let_def

section \<open>The matrix product\<close>

lemma mul_assign_distinct:
  assumes "this < length h" and "this \<noteq> b"
  shows "mul_assign this b h = h[this := spec_product (h ! this) (h ! b)]"
proof (cases "h ! this")
  case (fields a11 a12 a21 a22)
  with assms show ?thesis
    by (simp add: mul_assign_def spec_product_def Let_def)
qed

lemma operator_times_spec_product:
  assumes "b < length h"
  shows "operator_times a b h = spec_product a (h ! b)"
proof -
  have fresh: "length h \<noteq> b"
    using assms by simp
  have "mul_assign (length h) b (h @ [a])
      = (h @ [a])[length h := spec_product ((h @ [a]) ! length h) ((h @ [a]) ! b)]"
    by (rule mul_assign_distinct) (use fresh in simp_all)
  then show ?thesis
    using assms by (simp add: operator_times_def nth_append)
qed

lemma times_Matrix22_spec_product: "times_Matrix22 A B = spec_product A B"
  by (simp add: times_Matrix22_def operator_times_spec_product)

lemma mul_assign_locals_spec_product: "mul_assign_locals A B = spec_product A B"
  by (simp add: mul_assign_locals_def mul_assign_distinct)

lemma spec_product_assoc:
  fixes A B C :: "complex Matrix22"
  shows "spec_product (spec_product A B) C = spec_product A (spec_product B C)"
  by (simp add: spec_product_def algebra_simps)

lemma spec_product_identity_left: "spec_product identity_Matrix22 A = (A :: complex Matrix22)"
  by (simp add: spec_product_def identity_Matrix22_def)

lemma spec_product_identity_right: "spec_product A identity_Matrix22 = (A :: complex Matrix22)"
  by (simp add: spec_product_def identity_Matrix22_def)

lemma exact_spec_product:
  "exact_Matrix22 (spec_product A B) = spec_product (exact_Matrix22 A) (exact_Matrix22 B)"
  by (simp add: exact_Matrix22_def spec_product_def exact_plus exact_times)

lemma exact_identity_Matrix22: "exact_Matrix22 identity_Matrix22 = identity_Matrix22"
  by (simp add: exact_Matrix22_def identity_Matrix22_def exact_zero exact_one)

text \<open>
  On the program's numbers the identity is neutral for the values only: a zero entry
  may change its sign.
\<close>

lemma identity_signed_zero_example:
  "times_Matrix22 identity_Matrix22
     \<lparr>m11 = Cx NegZero NegZero, m12 = 0, m21 = 0, m22 = 0\<rparr>
   = \<lparr>m11 = Cx (Val 0) (Val 0), m12 = 0, m21 = 0, m22 = (0 :: complex_double)\<rparr>"
  by (simp add: times_Matrix22_spec_product spec_product_def identity_Matrix22_def
      complex_double_arith double_arith)

text \<open>
  Claim C6. For all matrices \<open>P\<close> and \<open>Q\<close> of the program the product \<open>P * Q\<close> has the
  entries \<open>P11 Q11 + P12 Q21\<close>, \<open>P11 Q12 + P12 Q22\<close>, \<open>P21 Q11 + P22 Q21\<close>,
  \<open>P21 Q12 + P22 Q22\<close>; the product is associative and the identity matrix is neutral
  on both sides, as equalities between the numbers the entries stand for. Read on exact
  complex numbers, the same operator has these entries, is associative and has the
  identity matrix as neutral element.
\<close>

theorem Matrix22_product_monoid:
  fixes A B C :: "complex Matrix22" and P Q R :: "complex_double Matrix22"
  shows "m11 (times_Matrix22 A B) = m11 A * m11 B + m12 A * m21 B
   \<and> m12 (times_Matrix22 A B) = m11 A * m12 B + m12 A * m22 B
   \<and> m21 (times_Matrix22 A B) = m21 A * m11 B + m22 A * m21 B
   \<and> m22 (times_Matrix22 A B) = m21 A * m12 B + m22 A * m22 B
   \<and> times_Matrix22 (times_Matrix22 A B) C = times_Matrix22 A (times_Matrix22 B C)
   \<and> times_Matrix22 identity_Matrix22 A = A
   \<and> times_Matrix22 A identity_Matrix22 = A
   \<and> m11 (times_Matrix22 P Q) = m11 P * m11 Q + m12 P * m21 Q
   \<and> m12 (times_Matrix22 P Q) = m11 P * m12 Q + m12 P * m22 Q
   \<and> m21 (times_Matrix22 P Q) = m21 P * m11 Q + m22 P * m21 Q
   \<and> m22 (times_Matrix22 P Q) = m21 P * m12 Q + m22 P * m22 Q
   \<and> exact_Matrix22 (times_Matrix22 (times_Matrix22 P Q) R)
       = exact_Matrix22 (times_Matrix22 P (times_Matrix22 Q R))
   \<and> exact_Matrix22 (times_Matrix22 identity_Matrix22 P) = exact_Matrix22 P
   \<and> exact_Matrix22 (times_Matrix22 P identity_Matrix22) = exact_Matrix22 P"
proof -
  have exact_numbers:
    "m11 (times_Matrix22 A B) = m11 A * m11 B + m12 A * m21 B
     \<and> m12 (times_Matrix22 A B) = m11 A * m12 B + m12 A * m22 B
     \<and> m21 (times_Matrix22 A B) = m21 A * m11 B + m22 A * m21 B
     \<and> m22 (times_Matrix22 A B) = m21 A * m12 B + m22 A * m22 B"
    by (simp add: times_Matrix22_spec_product spec_product_def)
  have exact_laws:
    "times_Matrix22 (times_Matrix22 A B) C = times_Matrix22 A (times_Matrix22 B C)
     \<and> times_Matrix22 identity_Matrix22 A = A
     \<and> times_Matrix22 A identity_Matrix22 = A"
    by (simp add: times_Matrix22_spec_product spec_product_assoc
        spec_product_identity_left spec_product_identity_right)
  have entries:
    "m11 (times_Matrix22 P Q) = m11 P * m11 Q + m12 P * m21 Q
     \<and> m12 (times_Matrix22 P Q) = m11 P * m12 Q + m12 P * m22 Q
     \<and> m21 (times_Matrix22 P Q) = m21 P * m11 Q + m22 P * m21 Q
     \<and> m22 (times_Matrix22 P Q) = m21 P * m12 Q + m22 P * m22 Q"
    by (simp add: times_Matrix22_spec_product spec_product_def)
  have laws:
    "exact_Matrix22 (times_Matrix22 (times_Matrix22 P Q) R)
       = exact_Matrix22 (times_Matrix22 P (times_Matrix22 Q R))
     \<and> exact_Matrix22 (times_Matrix22 identity_Matrix22 P) = exact_Matrix22 P
     \<and> exact_Matrix22 (times_Matrix22 P identity_Matrix22) = exact_Matrix22 P"
    by (simp add: times_Matrix22_spec_product exact_spec_product exact_identity_Matrix22
        spec_product_assoc spec_product_identity_left spec_product_identity_right)
  from exact_numbers exact_laws entries laws show ?thesis
    by (simp only: simp_thms)
qed

text \<open>
  When both references of \<^verbatim>\<open>operator*=\<close> designate one object, the second row is
  computed from the first row the statements before have already overwritten, and the
  result is not the square.
\<close>

lemma mul_assign_aliased_example:
  "mul_assign 0 0 [\<lparr>m11 = 1, m12 = 1, m21 = 1, m22 = 1 :: complex_double\<rparr>] ! 0
     = \<lparr>m11 = Cx (Val 2) (Val 0), m12 = Cx (Val 2) (Val 0),
        m21 = Cx (Val 3) (Val 0), m22 = Cx (Val 3) (Val 0)\<rparr>
   \<and> spec_product \<lparr>m11 = 1, m12 = 1, m21 = 1, m22 = 1 :: complex_double\<rparr>
        \<lparr>m11 = 1, m12 = 1, m21 = 1, m22 = 1\<rparr>
     = \<lparr>m11 = Cx (Val 2) (Val 0), m12 = Cx (Val 2) (Val 0),
        m21 = Cx (Val 2) (Val 0), m22 = Cx (Val 2) (Val 0)\<rparr>"
  by (simp add: mul_assign_def spec_product_def Let_def complex_double_arith double_arith)

lemma mul_assign_other_unchanged:
  assumes "q \<noteq> this"
  shows "mul_assign this b h ! q = h ! q"
  using assms by (simp add: mul_assign_def Let_def)

text \<open>
  Claim C10. For every matrix \<open>A\<close>, \<open>A * A\<close> (the value-returning operator called with
  the object \<open>p\<close> that holds \<open>A\<close> as both operands) returns the square of \<open>A\<close>, entry
  by entry the product formula of \<open>A\<close> with itself: the left operand is a copy, so the
  in-place multiplication never writes to the object the right operand refers to, which
  still holds \<open>A\<close> afterwards.
\<close>

theorem operator_times_square:
  fixes A :: "('a::{plus,times}) Matrix22"
  assumes "p < length h" and "A = h ! p"
  shows "operator_times A p h =
           \<lparr>m11 = m11 A * m11 A + m12 A * m21 A,
            m12 = m11 A * m12 A + m12 A * m22 A,
            m21 = m21 A * m11 A + m22 A * m21 A,
            m22 = m21 A * m12 A + m22 A * m22 A\<rparr>
         \<and> mul_assign (length h) p (h @ [A]) ! p = A"
proof -
  have "operator_times A p h = spec_product A (h ! p)"
    using assms(1) by (rule operator_times_spec_product)
  moreover have "mul_assign (length h) p (h @ [A]) ! p = (h @ [A]) ! p"
    using assms(1) by (intro mul_assign_other_unchanged) simp
  ultimately show ?thesis
    using assms by (simp add: spec_product_def nth_append)
qed

theorem operator_times_square_witness:
  "(0::nat) < length [\<lparr>m11 = 1, m12 = 1, m21 = 1, m22 = 1 :: complex_double\<rparr>]
   \<and> operator_times \<lparr>m11 = 1, m12 = 1, m21 = 1, m22 = 1 :: complex_double\<rparr> 0
       [\<lparr>m11 = 1, m12 = 1, m21 = 1, m22 = 1\<rparr>]
       = \<lparr>m11 = Cx (Val 2) (Val 0), m12 = Cx (Val 2) (Val 0),
          m21 = Cx (Val 2) (Val 0), m22 = Cx (Val 2) (Val 0)\<rparr>
   \<and> mul_assign 1 0 [\<lparr>m11 = 1, m12 = 1, m21 = 1, m22 = 1 :: complex_double\<rparr>,
                      \<lparr>m11 = 1, m12 = 1, m21 = 1, m22 = 1\<rparr>] ! 0
       = \<lparr>m11 = 1, m12 = 1, m21 = 1, m22 = 1\<rparr>"
  using operator_times_square
    [of 0 "[\<lparr>m11 = 1, m12 = 1, m21 = 1, m22 = 1 :: complex_double\<rparr>]"
        "\<lparr>m11 = 1, m12 = 1, m21 = 1, m22 = 1\<rparr>"]
  by (simp add: complex_double_arith double_arith)

section \<open>asin and acos\<close>

lemma Arg_unit_circle:
  assumes "- pi < a" and "a \<le> pi"
  shows "Arg (Complex (cos a) (sin a)) = a"
proof -
  have "sgn (Complex (cos a) (sin a)) = cis a"
    by (simp add: sgn_eq complex_eq_iff cmod_def flip: power2_eq_square)
  with assms show ?thesis
    by (intro cis_Arg_unique) simp_all
qed

lemma cmod_unit_circle: "cmod (Complex (cos a) (sin a)) = 1"
  by (simp add: cmod_def)

text \<open>
  At a real argument \<open>x\<close> with \<open>-1 < x < 0\<close>, \<^verbatim>\<open>z * z\<close> has the imaginary part
  \<open>x (+0) + (+0) x = -0\<close>, so has \<^verbatim>\<open>z * z - 1.0\<close>, a negative real, and
  \<^verbatim>\<open>std::sqrt\<close> returns the root \<open>-i sqrt (1 - x\<^sup>2)\<close>: \<^verbatim>\<open>acos\<close> returns
  \<open>- arccos x\<close>.
\<close>

lemma acos_negative_real:
  assumes "- 1 < x" and "x < 0"
  shows "Cx (Val x) (Val 0) * Cx (Val x) (Val 0) = Cx (Val (x * x)) NegZero"
    and "complex_minus_double (Cx (Val (x * x)) NegZero) (Val 1) = Cx (Val (x * x - 1)) NegZero"
    and "std_sqrt (Cx (Val (x * x - 1)) NegZero) = Cx (Val 0) (Val (- sqrt (1 - x * x)))"
    and "acos (Cx (Val x) (Val 0)) = Cx (Val (- arccos x)) (Val 0)"
proof -
  define m where "m = sqrt (1 - x * x)"
  define a where "a = arccos x"
  have "x\<^sup>2 < 1"
    using assms by (simp add: abs_square_less_1 abs_less_iff)
  then have radicand: "x * x - 1 < 0"
    by (simp add: power2_eq_square)
  then have m_pos: "0 < m"
    by (simp add: m_def)
  have a_range: "0 < a" "a < pi"
    using assms arccos_lt_bounded [of x] by (simp_all add: a_def)
  have on_circle: "cos a = x" "sin a = m"
    using assms by (simp_all add: a_def m_def cos_arccos sin_arccos power2_eq_square)
  have point: "Complex x (- m) = Complex (cos (- a)) (sin (- a))"
    by (simp add: on_circle)
  have modulus: "cmod (Complex x (- m)) = 1"
    unfolding point by (rule cmod_unit_circle)
  have angle: "Arg (Complex x (- m)) = - a"
    unfolding point by (rule Arg_unit_circle) (use a_range in simp_all)
  show sq: "Cx (Val x) (Val 0) * Cx (Val x) (Val 0) = Cx (Val (x * x)) NegZero"
    using assms by (simp add: complex_double_arith double_arith)
  show rad: "complex_minus_double (Cx (Val (x * x)) NegZero) (Val 1) = Cx (Val (x * x - 1)) NegZero"
    using assms by (simp add: complex_double_arith double_arith)
  show root: "std_sqrt (Cx (Val (x * x - 1)) NegZero) = Cx (Val 0) (Val (- sqrt (1 - x * x)))"
    using radicand m_pos by (simp add: std_sqrt_def copysign_def m_def)
  have sum: "Cx (Val x) (Val 0) + Cx (Val 0) (Val (- m)) = Cx (Val x) (Val (- m))"
    by (simp add: complex_double_arith double_arith)
  have log: "std_log (Cx (Val x) (Val (- m))) = Cx (Val 0) (Val (- a))"
    using m_pos by (simp add: std_log_def std_arg_def std_atan2_def exact_Cx modulus angle)
  have product: "- onei * Cx (Val 0) (Val (- a)) = Cx (Val (- a)) (Val 0)"
    using a_range by (simp add: complex_double_arith double_arith)
  show "acos (Cx (Val x) (Val 0)) = Cx (Val (- arccos x)) (Val 0)"
    unfolding acos_def sq rad root
    by (simp only: sum log product flip: m_def a_def)
qed

text \<open>
  Claim C7, at the argument \<open>z = (-0.5, +0)\<close>, a real number in \<open>[-1, 1]\<close>:
  \<^verbatim>\<open>z * z\<close> is \<open>(0.25, -0)\<close>, \<^verbatim>\<open>z * z - 1.0\<close> is \<open>(-0.75, -0)\<close>, its square root is
  \<open>-i sqrt 0.75\<close>, and \<^verbatim>\<open>acos\<close> returns \<open>-2\<pi>/3\<close>, about \<open>-2.094\<close>, where the real
  inverse cosine is \<open>arccos (-0.5) = 2\<pi>/3\<close>.
\<close>

theorem acos_negative_half:
  "Cx (Val (- 1/2)) (Val 0) * Cx (Val (- 1/2)) (Val 0) = Cx (Val (1/4)) NegZero
   \<and> complex_minus_double (Cx (Val (1/4)) NegZero) (Val 1) = Cx (Val (- 3/4)) NegZero
   \<and> std_sqrt (Cx (Val (- 3/4)) NegZero) = Cx (Val 0) (Val (- sqrt (3/4)))
   \<and> acos (Cx (Val (- 1/2)) (Val 0)) = Cx (Val (- (2 * pi / 3))) (Val 0)
   \<and> arccos (- 1/2) = 2 * pi / 3"
proof -
  have "arccos (cos (2 * pi / 3)) = 2 * pi / 3"
    by (rule arccos_cos) simp_all
  then have real_arccos: "arccos (- 1/2) = 2 * pi / 3"
    by (simp add: cos_120)
  from acos_negative_real [of "- 1/2"] real_arccos show ?thesis
    by simp
qed

section \<open>The loop over the layers\<close>

lemma exact_snell_radicand:
  "exact (snell_radicand c n_inc n) = 1 - (1 - (exact c)\<^sup>2) * (exact n_inc / exact n)\<^sup>2"
  by (simp add: snell_radicand_def exact_arith power2_eq_square mult.assoc)

lemma exact_snell_root:
  "exact (std_sqrt (double_minus_complex (Val 1)
            (double_minus_complex (Val 1) (c * c) * (n_inc / n) * (n_inc / n))))
   = spec_cos c n_inc n"
proof -
  have "exact (std_sqrt (snell_radicand c n_inc n)) = spec_cos c n_inc n"
    by (simp add: exact_std_sqrt spec_cos_def exact_snell_radicand)
  then show ?thesis
    by (simp only: snell_radicand_def)
qed

lemma not_below_cut:
  assumes "Im (exact x) \<noteq> 0 \<or> 0 \<le> Re (exact x)"
  shows "\<not> below_cut x"
  using assms by (auto simp add: below_cut_def Re_exact Im_exact)

lemma spec_cos_principal:
  assumes "Im (1 - (1 - (exact c)\<^sup>2) * (exact n_inc / exact n)\<^sup>2) \<noteq> 0
           \<or> 0 \<le> Re (1 - (1 - (exact c)\<^sup>2) * (exact n_inc / exact n)\<^sup>2)"
  shows "spec_cos c n_inc n = csqrt (1 - (1 - (exact c)\<^sup>2) * (exact n_inc / exact n)\<^sup>2)"
proof -
  have "\<not> below_cut (snell_radicand c n_inc n)"
    by (rule not_below_cut) (use assms in \<open>simp only: exact_snell_radicand\<close>)
  then show ?thesis
    by (simp add: spec_cos_def)
qed

lemma sint_size:
  assumes "k < 2 ^ 31"
  shows "sint (word_of_nat k :: 32 word) = int k"
proof -
  have "signed_take_bit 31 (int k) = int k"
    using assms by (intro signed_take_bit_int_eq_self) simp_all
  then show ?thesis
    by (simp add: signed_of_nat)
qed

lemma layersAmount_le_size: "sint (word_of_nat k :: 32 word) \<le> int k"
proof -
  have "- (2 ^ 31) \<le> int k"
    by (rule order_trans [of _ 0]) simp_all
  then have "signed_take_bit 31 (int k) \<le> int k"
    by (simp only: signed_take_bit_int_less_eq_self_iff)
  then show ?thesis
    by (simp add: signed_of_nat)
qed

lemma exact_deltaLayer:
  "exact (complex_divide_double
            (complex_times_double (double_times_complex (- Val 2 * M_PI) n) d * cosine) lambda)
   = - 2 * complex_of_real pi * exact n * complex_of_real (val d) * exact cosine
       / complex_of_real (val lambda)"
  by (simp add: exact_arith val_arith M_PI_def)

lemma layerMatrices_spec:
  "exact_Matrix22 (fst (layerMatrices c lambda n layer)) = spec_layer_matrix_P c lambda n layer"
  "exact_Matrix22 (snd (layerMatrices c lambda n layer)) = spec_layer_matrix_S c lambda n layer"
proof -
  have phase:
    "- 2 * complex_of_real pi * exact (refractiveIndex layer) * complex_of_real (val (thickness layer))
       * spec_cos c n (refractiveIndex layer) / complex_of_real (val lambda)
     = spec_phase_thickness c lambda n layer"
    by (simp only: spec_phase_thickness_def)
  show "exact_Matrix22 (fst (layerMatrices c lambda n layer)) = spec_layer_matrix_P c lambda n layer"
    unfolding layerMatrices_def Let_def fst_conv exact_Matrix22_def Matrix22.simps
      exact_times exact_divide exact_std_cos exact_std_sin exact_onei
      exact_deltaLayer exact_snell_root phase
    by (simp add: spec_layer_matrix_P_def spec_transfer_matrix_def mult.commute)
  show "exact_Matrix22 (snd (layerMatrices c lambda n layer)) = spec_layer_matrix_S c lambda n layer"
    unfolding layerMatrices_def Let_def snd_conv exact_Matrix22_def Matrix22.simps
      exact_times exact_divide exact_std_cos exact_std_sin exact_onei
      exact_deltaLayer exact_snell_root phase
    by (simp add: spec_layer_matrix_S_def spec_transfer_matrix_def mult.commute)
qed

lemma loop_body_spec_step:
  "map_prod exact_Matrix22 exact_Matrix22
     (mul_assign_locals (fst pm) (fst (layerMatrices c lambda n layer)),
      mul_assign_locals (snd pm) (snd (layerMatrices c lambda n layer)))
   = spec_step c lambda n (map_prod exact_Matrix22 exact_Matrix22 pm) layer"
  by (simp add: spec_step_def layerMatrices_spec mul_assign_locals_spec_product exact_spec_product)

lemma layersLoop_drop:
  assumes "0 \<le> i" and "layersAmount = int (length layers)"
  shows "map_prod exact_Matrix22 exact_Matrix22 (layersLoop i layersAmount c lambda n layers pm)
         = foldl (spec_step c lambda n) (map_prod exact_Matrix22 exact_Matrix22 pm) (drop (nat i) layers)"
  using assms
proof (induction i layersAmount c lambda n layers pm rule: layersLoop.induct)
  case (1 i layersAmount c lambda n layers pm)
  let ?E = "map_prod exact_Matrix22 exact_Matrix22"
  let ?next = "(mul_assign_locals (fst pm) (fst (layerMatrices c lambda n (layers ! nat i))),
                mul_assign_locals (snd pm) (snd (layerMatrices c lambda n (layers ! nat i))))"
  show ?case
  proof (cases "i < layersAmount")
    case True
    with "1.prems" have in_range: "nat i < length layers"
      by simp
    have next_index: "nat (i + 1) = Suc (nat i)"
      using "1.prems" by simp
    have "layersLoop i layersAmount c lambda n layers pm
          = layersLoop (i + 1) layersAmount c lambda n layers ?next"
      using True by (subst layersLoop.simps) (simp add: Let_def)
    also have "?E (layersLoop (i + 1) layersAmount c lambda n layers ?next)
               = foldl (spec_step c lambda n) (?E ?next) (drop (nat (i + 1)) layers)"
      using True "1.prems"
      by (intro "1.IH" [OF True refl, unfolded Let_def]) simp_all
    also have "?E ?next = spec_step c lambda n (?E pm) (layers ! nat i)"
      by (rule loop_body_spec_step)
    also have "foldl (spec_step c lambda n) (spec_step c lambda n (?E pm) (layers ! nat i))
                 (drop (nat (i + 1)) layers)
               = foldl (spec_step c lambda n) (?E pm) (drop (nat i) layers)"
      using in_range by (simp add: next_index flip: Cons_nth_drop_Suc)
    finally show ?thesis .
  next
    case False
    with "1.prems" show ?thesis
      by (subst layersLoop.simps) simp
  qed
qed

lemma productMatrices_Nil:
  "productMatrices c lambda n [] = (identity_Matrix22, identity_Matrix22)"
  by (simp add: productMatrices_def layersLoop.simps)

text \<open>
  For the layer sequences whose size the \<^verbatim>\<open>int\<close> counter can hold, fewer than
  \<open>2^31\<close> layers, the loop takes the layers in the given order and multiplies each of the
  two running products on the right by the matrix of the layer.
\<close>

lemma productMatrices_spec:
  assumes "length layers < 2 ^ 31"
  shows "map_prod exact_Matrix22 exact_Matrix22 (productMatrices c lambda n layers)
         = spec_running_products c lambda n layers"
  using assms
  by (simp add: productMatrices_def spec_running_products_def sint_size layersLoop_drop
      exact_identity_Matrix22)

lemma exact_simulate_locals:
  assumes "length layers < 2 ^ 31"
  shows "exact (admittanceIncidentP (simulate_locals c lambda n n' layers)) = exact n / exact c"
    and "exact (admittanceIncidentS (simulate_locals c lambda n n' layers)) = exact n * exact c"
    and "exact (exitCosTheta (simulate_locals c lambda n n' layers)) = spec_cos c n n'"
    and "exact_Matrix22 (productMatrixP (simulate_locals c lambda n n' layers))
         = fst (spec_running_products c lambda n layers)"
    and "exact_Matrix22 (productMatrixS (simulate_locals c lambda n n' layers))
         = snd (spec_running_products c lambda n layers)"
proof -
  have "map_prod exact_Matrix22 exact_Matrix22 (productMatrices c lambda n layers)
        = spec_running_products c lambda n layers"
    using assms by (rule productMatrices_spec)
  then have products:
    "exact_Matrix22 (fst (productMatrices c lambda n layers)) = fst (spec_running_products c lambda n layers)"
    "exact_Matrix22 (snd (productMatrices c lambda n layers)) = snd (spec_running_products c lambda n layers)"
    by (metis fst_map_prod, metis snd_map_prod)
  show "exact (admittanceIncidentP (simulate_locals c lambda n n' layers)) = exact n / exact c"
    "exact (admittanceIncidentS (simulate_locals c lambda n n' layers)) = exact n * exact c"
    "exact (exitCosTheta (simulate_locals c lambda n n' layers)) = spec_cos c n n'"
    by (simp_all add: simulate_locals_def Let_def exact_divide exact_times exact_snell_root)
  show "exact_Matrix22 (productMatrixP (simulate_locals c lambda n n' layers))
         = fst (spec_running_products c lambda n layers)"
    "exact_Matrix22 (productMatrixS (simulate_locals c lambda n n' layers))
         = snd (spec_running_products c lambda n layers)"
    by (simp_all add: simulate_locals_def Let_def products)
qed

lemma exact_Matrix22_entries:
  "exact (m11 A) = m11 (exact_Matrix22 A)" "exact (m12 A) = m12 (exact_Matrix22 A)"
  "exact (m21 A) = m21 (exact_Matrix22 A)" "exact (m22 A) = m22 (exact_Matrix22 A)"
  by (simp_all add: exact_Matrix22_def)

lemma exact_coefficients:
  assumes "length layers < 2 ^ 31"
  shows "exact (reflectionCoefficientP (simulate_locals c lambda n n' layers))
         = spec_r (fst (spec_running_products c lambda n layers))
             (exact n / exact c) (exact n' / spec_cos c n n')"
    and "exact (reflectionCoefficientS (simulate_locals c lambda n n' layers))
         = spec_r (snd (spec_running_products c lambda n layers))
             (exact n * exact c) (exact n' * spec_cos c n n')"
    and "exact (double_divide_complex (Val 2)
                  (bP (simulate_locals c lambda n n' layers)
                   + cP (simulate_locals c lambda n n' layers)
                     / admittanceIncidentP (simulate_locals c lambda n n' layers))
                * c / exitCosTheta (simulate_locals c lambda n n' layers))
         = spec_t (fst (spec_running_products c lambda n layers))
             (exact n / exact c) (exact n' / spec_cos c n n') * exact c / spec_cos c n n'"
    and "exact (double_divide_complex (Val 2)
                  (bS (simulate_locals c lambda n n' layers)
                   + cS (simulate_locals c lambda n n' layers)
                     / admittanceIncidentS (simulate_locals c lambda n n' layers)))
         = spec_t (snd (spec_running_products c lambda n layers))
             (exact n * exact c) (exact n' * spec_cos c n n')"
proof -
  have "map_prod exact_Matrix22 exact_Matrix22 (productMatrices c lambda n layers)
        = spec_running_products c lambda n layers"
    using assms by (rule productMatrices_spec)
  then have products:
    "exact_Matrix22 (fst (productMatrices c lambda n layers)) = fst (spec_running_products c lambda n layers)"
    "exact_Matrix22 (snd (productMatrices c lambda n layers)) = snd (spec_running_products c lambda n layers)"
    by (metis fst_map_prod, metis snd_map_prod)
  show "exact (reflectionCoefficientP (simulate_locals c lambda n n' layers))
         = spec_r (fst (spec_running_products c lambda n layers))
             (exact n / exact c) (exact n' / spec_cos c n n')"
    by (simp add: simulate_locals_def Let_def spec_r_def exact_arith exact_snell_root
        exact_Matrix22_entries products)
  show "exact (reflectionCoefficientS (simulate_locals c lambda n n' layers))
         = spec_r (snd (spec_running_products c lambda n layers))
             (exact n * exact c) (exact n' * spec_cos c n n')"
    by (simp add: simulate_locals_def Let_def spec_r_def exact_arith exact_snell_root
        exact_Matrix22_entries products)
  show "exact (double_divide_complex (Val 2)
                  (bP (simulate_locals c lambda n n' layers)
                   + cP (simulate_locals c lambda n n' layers)
                     / admittanceIncidentP (simulate_locals c lambda n n' layers))
                * c / exitCosTheta (simulate_locals c lambda n n' layers))
         = spec_t (fst (spec_running_products c lambda n layers))
             (exact n / exact c) (exact n' / spec_cos c n n') * exact c / spec_cos c n n'"
    by (simp add: simulate_locals_def Let_def spec_t_def exact_arith exact_snell_root
        exact_Matrix22_entries products)
  show "exact (double_divide_complex (Val 2)
                  (bS (simulate_locals c lambda n n' layers)
                   + cS (simulate_locals c lambda n n' layers)
                     / admittanceIncidentS (simulate_locals c lambda n n' layers)))
         = spec_t (snd (spec_running_products c lambda n layers))
             (exact n * exact c) (exact n' * spec_cos c n n')"
    by (simp add: simulate_locals_def Let_def spec_t_def exact_arith exact_snell_root
        exact_Matrix22_entries products)
qed

section \<open>The outputs of simulate\<close>

lemma apply_stores_Nil: "apply_stores m [] = m"
  by (simp add: apply_stores_def)

lemma apply_stores_Cons: "apply_stores m ((p, v) # ws) = apply_stores (m(p := v)) ws"
  by (simp add: apply_stores_def)

lemma apply_stores_append: "apply_stores m (ws @ ws') = apply_stores (apply_stores m ws) ws'"
  by (simp add: apply_stores_def)

lemma apply_stores_frame:
  assumes "x \<notin> fst ` set ws"
  shows "apply_stores m ws x = m x"
  using assms
proof (induction ws arbitrary: m)
  case Nil
  show ?case by (simp add: apply_stores_Nil)
next
  case (Cons w ws)
  obtain p v where w: "w = (p, v)"
    by (cases w)
  with Cons.prems have other: "x \<noteq> p" and rest: "x \<notin> fst ` set ws"
    by auto
  have "apply_stores m (w # ws) x = apply_stores (m(p := v)) ws x"
    by (simp only: w apply_stores_Cons)
  also have "\<dots> = (m(p := v)) x"
    using rest by (rule Cons.IH)
  also have "\<dots> = m x"
    using other by simp
  finally show ?case .
qed

lemma apply_stores_kept:
  assumes "p \<notin> fst ` set ws'"
  shows "apply_stores m (ws @ (p, v) # ws') p = v"
  using assms by (simp add: apply_stores_append apply_stores_Cons apply_stores_frame)

text \<open>The values \<^verbatim>\<open>simulate\<close> stores, from its local constants.\<close>

lemma val_weighted:
  "val (cos_double pol * cos_double pol * std_norm a + sin_double pol * sin_double pol * std_norm b)
   = spec_weighted pol (exact a) (exact b)"
  by (simp add: spec_weighted_def val_arith val_cos_double val_sin_double val_std_norm
      power2_eq_square)

lemma stores_output_psi_delta:
  "stores (output_psi_delta v psi delta s) =
     stores s @ (case psi of None \<Rightarrow> [] | Some p \<Rightarrow>
       (case delta of None \<Rightarrow> [] | Some d \<Rightarrow>
          [(p, spec_atan2 (cmod (exact (reflectionCoefficientP v))) (cmod (exact (reflectionCoefficientS v)))),
           (d, val (std_arg (reflectionCoefficientP v) - std_arg (reflectionCoefficientS v)))]))"
  by (simp add: output_psi_delta_def store_def Let_def val_std_atan2_abs spec_atan2_def
      split: option.splits)

lemma stderr_output_psi_delta: "stderr (output_psi_delta v psi delta s) = stderr s"
  by (simp add: output_psi_delta_def store_def Let_def split: option.splits)

lemma stores_output_energy:
  "stores (output_energy v c pol n reflectance transmittance absorptance s) =
     (let R = spec_weighted pol (exact (reflectionCoefficientP v)) (exact (reflectionCoefficientS v));
          T = spec_weighted pol
                (exact (double_divide_complex (Val 2) (bP v + cP v / admittanceIncidentP v)
                          * c / exitCosTheta v))
                (exact (double_divide_complex (Val 2) (bS v + cS v / admittanceIncidentS v)))
      in stores s @ (case reflectance of None \<Rightarrow> [] | Some r \<Rightarrow>
           (r, R) #
           (case transmittance of None \<Rightarrow> [] | Some t \<Rightarrow>
              (t, T) #
              (case absorptance of None \<Rightarrow> [] | Some a \<Rightarrow>
                 [(a, 1 - (if r = t then T else R) - T)]))))"
  by (simp add: output_energy_def store_def fprintf_stderr_def Let_def val_weighted
      split: option.splits)

lemma stderr_output_energy:
  "stderr (output_energy v c pol n reflectance transmittance absorptance s) =
     stderr s @ (case reflectance of None \<Rightarrow> [] | Some r \<Rightarrow>
       (case transmittance of None \<Rightarrow> [] | Some t \<Rightarrow>
          (if val (im n) \<noteq> 0 then [warning] else [])))"
  by (simp add: output_energy_def store_def fprintf_stderr_def Let_def split: option.splits)

lemma stores_simulate:
  "stores (simulate c lambda pol n n' layers reflectance transmittance absorptance psi delta memory) =
     (let v = simulate_locals c lambda n n' layers;
          R = spec_weighted pol (exact (reflectionCoefficientP v)) (exact (reflectionCoefficientS v));
          T = spec_weighted pol
                (exact (double_divide_complex (Val 2) (bP v + cP v / admittanceIncidentP v)
                          * c / exitCosTheta v))
                (exact (double_divide_complex (Val 2) (bS v + cS v / admittanceIncidentS v)))
      in (case reflectance of None \<Rightarrow> [] | Some r \<Rightarrow>
           (r, R) #
           (case transmittance of None \<Rightarrow> [] | Some t \<Rightarrow>
              (t, T) #
              (case absorptance of None \<Rightarrow> [] | Some a \<Rightarrow>
                 [(a, 1 - (if r = t then T else R) - T)])))
         @ (case psi of None \<Rightarrow> [] | Some p \<Rightarrow>
           (case delta of None \<Rightarrow> [] | Some d \<Rightarrow>
              [(p, spec_atan2 (cmod (exact (reflectionCoefficientP v)))
                              (cmod (exact (reflectionCoefficientS v)))),
               (d, val (std_arg (reflectionCoefficientP v) - std_arg (reflectionCoefficientS v)))])))"
  by (simp add: simulate_def Let_def stores_output_psi_delta stores_output_energy)

lemma stderr_simulate:
  "stderr (simulate c lambda pol n n' layers reflectance transmittance absorptance psi delta memory) =
     (case reflectance of None \<Rightarrow> [] | Some r \<Rightarrow>
       (case transmittance of None \<Rightarrow> [] | Some t \<Rightarrow>
          (if Im (exact n) \<noteq> 0 then [warning] else [])))"
  by (simp add: simulate_def Let_def stderr_output_psi_delta stderr_output_energy Im_exact)

lemma mem_store: "mem (store p v s) = (mem s)(p := v)"
  by (simp add: store_def)

lemma stores_store: "stores (store p v s) = stores s @ [(p, v)]"
  by (simp add: store_def)

lemma mem_fprintf_stderr: "mem (fprintf_stderr msg s) = mem s"
  "stores (fprintf_stderr msg s) = stores s"
  by (simp_all add: fprintf_stderr_def)

lemma mem_output_energy:
  assumes "mem s = apply_stores memory (stores s)"
  shows "mem (output_energy v c pol n reflectance transmittance absorptance s)
         = apply_stores memory (stores (output_energy v c pol n reflectance transmittance absorptance s))"
  using assms
  by (simp add: output_energy_def Let_def mem_store stores_store mem_fprintf_stderr
      apply_stores_append apply_stores_Cons apply_stores_Nil split: option.splits)

lemma mem_output_psi_delta:
  assumes "mem s = apply_stores memory (stores s)"
  shows "mem (output_psi_delta v psi delta s)
         = apply_stores memory (stores (output_psi_delta v psi delta s))"
  using assms
  by (simp add: output_psi_delta_def Let_def mem_store stores_store
      apply_stores_append apply_stores_Cons apply_stores_Nil split: option.splits)

lemma mem_simulate:
  "mem (simulate c lambda pol n n' layers reflectance transmittance absorptance psi delta memory) =
     apply_stores memory
       (stores (simulate c lambda pol n n' layers reflectance transmittance absorptance psi delta memory))"
  unfolding simulate_def Let_def
  by (intro mem_output_psi_delta mem_output_energy) (simp add: apply_stores_Nil)

lemma targets_simulate:
  "map fst (stores (simulate c lambda pol n n' layers
                      reflectance transmittance absorptance psi delta memory)) =
     (case reflectance of None \<Rightarrow> [] | Some r \<Rightarrow>
        r # (case transmittance of None \<Rightarrow> [] | Some t \<Rightarrow>
          t # (case absorptance of None \<Rightarrow> [] | Some a \<Rightarrow> [a])))
     @ (case psi of None \<Rightarrow> [] | Some p \<Rightarrow>
         (case delta of None \<Rightarrow> [] | Some d \<Rightarrow> [p, d]))"
  by (simp add: stores_simulate Let_def split: option.splits)

text \<open>
  Claim C5. \<^verbatim>\<open>simulate\<close> assigns through exactly these pointers, in this order:
  \<^verbatim>\<open>reflectance\<close> if it is non-null, then \<^verbatim>\<open>transmittance\<close> if it and
  \<^verbatim>\<open>reflectance\<close> are non-null, then \<^verbatim>\<open>absorptance\<close> if it, \<^verbatim>\<open>transmittance\<close> and
  \<^verbatim>\<open>reflectance\<close> are non-null, then \<^verbatim>\<open>psi\<close> and \<^verbatim>\<open>delta\<close> if both are non-null.
  Every other location is left as it was; in particular the location of an output whose
  prerequisites are not requested, unless it is also passed for an output that is written.
\<close>

theorem simulate_frame:
  "let st = simulate incidentCosTheta lambda polarization nIncident nExit layers
              reflectance transmittance absorptance psi delta memory;
       energy = (case reflectance of None \<Rightarrow> [] | Some r \<Rightarrow>
                  r # (case transmittance of None \<Rightarrow> [] | Some t \<Rightarrow>
                    t # (case absorptance of None \<Rightarrow> [] | Some a \<Rightarrow> [a])));
       ellipsometry = (case psi of None \<Rightarrow> [] | Some p \<Rightarrow>
                        (case delta of None \<Rightarrow> [] | Some d \<Rightarrow> [p, d]))
   in map fst (stores st) = energy @ ellipsometry
      \<and> (\<forall>x. x \<notin> set (energy @ ellipsometry) \<longrightarrow> mem st x = memory x)"
proof -
  let ?st = "simulate incidentCosTheta lambda polarization nIncident nExit layers
              reflectance transmittance absorptance psi delta memory"
  let ?energy = "case reflectance of None \<Rightarrow> [] | Some r \<Rightarrow>
                  r # (case transmittance of None \<Rightarrow> [] | Some t \<Rightarrow>
                    t # (case absorptance of None \<Rightarrow> [] | Some a \<Rightarrow> [a]))"
  let ?ellipsometry = "case psi of None \<Rightarrow> [] | Some p \<Rightarrow>
                        (case delta of None \<Rightarrow> [] | Some d \<Rightarrow> [p, d])"
  have targets: "map fst (stores ?st) = ?energy @ ?ellipsometry"
    by (rule targets_simulate)
  have "mem ?st x = memory x" if "x \<notin> set (?energy @ ?ellipsometry)" for x
  proof -
    from that have "x \<notin> set (map fst (stores ?st))"
      unfolding targets .
    then have "x \<notin> fst ` set (stores ?st)"
      by simp
    then show ?thesis
      unfolding mem_simulate by (rule apply_stores_frame)
  qed
  with targets show ?thesis
    by (simp only: Let_def) blast
qed

theorem simulate_frame_witness:
  "map fst (stores (simulate 1 (Val 550) 0 1 (Cx (Val (3/2)) (Val 0)) []
                      (Some 0) None (Some 2) (Some 3) None (\<lambda>_. 7))) = [0]
   \<and> (2::nat) \<notin> set [0] \<and> (3::nat) \<notin> set [0]
   \<and> mem (simulate 1 (Val 550) 0 1 (Cx (Val (3/2)) (Val 0)) []
            (Some 0) None (Some 2) (Some 3) None (\<lambda>_. 7)) 2 = 7
   \<and> mem (simulate 1 (Val 550) 0 1 (Cx (Val (3/2)) (Val 0)) []
            (Some 0) None (Some 2) (Some 3) None (\<lambda>_. 7)) 3 = 7"
  using simulate_frame [of 1 "Val 550" 0 1 "Cx (Val (3/2)) (Val 0)" "[]"
                           "Some 0" None "Some 2" "Some 3" None "\<lambda>_. 7"]
  by (simp add: Let_def)

lemma mem_simulate_reflectance:
  assumes "Some r \<notin> {transmittance, absorptance, psi, delta}"
  shows "mem (simulate c lambda pol n n' layers (Some r) transmittance absorptance psi delta memory) r
         = snd (stores (simulate c lambda pol n n' layers (Some r) transmittance absorptance psi delta memory) ! 0)"
proof -
  let ?st = "simulate c lambda pol n n' layers (Some r) transmittance absorptance psi delta memory"
  define later where "later = tl (stores ?st)"
  define R where "R = snd (stores ?st ! 0)"
  have log: "stores ?st = [] @ (r, R) # later"
    by (simp add: later_def R_def stores_simulate Let_def)
  have "set (map fst later) \<subseteq> {x. Some x \<in> {transmittance, absorptance, psi, delta}}"
    unfolding later_def map_tl targets_simulate by (auto split: option.splits)
  with assms have "r \<notin> fst ` set later"
    by auto
  then have "mem ?st r = R"
    unfolding mem_simulate log by (rule apply_stores_kept)
  then show ?thesis
    by (simp only: R_def)
qed

lemma mem_simulate_transmittance:
  assumes "Some t \<notin> {absorptance, psi, delta}"
  shows "mem (simulate c lambda pol n n' layers (Some r) (Some t) absorptance psi delta memory) t
         = snd (stores (simulate c lambda pol n n' layers (Some r) (Some t) absorptance psi delta memory) ! 1)"
proof -
  let ?st = "simulate c lambda pol n n' layers (Some r) (Some t) absorptance psi delta memory"
  define later where "later = drop 2 (stores ?st)"
  define R where "R = snd (stores ?st ! 0)"
  define T where "T = snd (stores ?st ! 1)"
  have log: "stores ?st = [(r, R)] @ (t, T) # later"
    by (simp add: later_def R_def T_def stores_simulate Let_def)
  have "set (map fst later) \<subseteq> {x. Some x \<in> {absorptance, psi, delta}}"
    unfolding later_def drop_map [symmetric] targets_simulate
    by (auto split: option.splits)
  with assms have "t \<notin> fst ` set later"
    by auto
  then have "mem ?st t = T"
    unfolding mem_simulate log by (rule apply_stores_kept)
  then show ?thesis
    by (simp only: T_def)
qed

text \<open>
  Claim C9. On every input with non-null \<^verbatim>\<open>reflectance\<close>, \<^verbatim>\<open>transmittance\<close> and
  \<^verbatim>\<open>absorptance\<close> pointers, the third assignment stores, through \<^verbatim>\<open>absorptance\<close>,
  one minus what the reflectance and the transmittance locations hold: with \<open>R\<close>, \<open>T\<close>
  and \<open>A\<close> the three values stored, \<open>A = 1 - R - T\<close> and \<open>R + T + A = 1\<close> when the
  first two pointers are different locations. When the three locations are distinct and
  are not passed for \<open>psi\<close> or \<open>delta\<close>, their final contents add up to 1. This holds
  for every stack, so for every stack of real refractive indices.
\<close>

theorem simulate_absorptance:
  assumes "reflectance = Some r" and "transmittance = Some t" and "absorptance = Some a"
  shows "let st = simulate incidentCosTheta lambda polarization nIncident nExit layers
                    reflectance transmittance absorptance psi delta memory;
             R = snd (stores st ! 0);
             T = snd (stores st ! 1);
             A = snd (stores st ! 2)
         in map fst (take 3 (stores st)) = [r, t, a]
            \<and> A = 1 - (if r = t then T else R) - T
            \<and> (r \<noteq> t \<longrightarrow> A = 1 - R - T \<and> R + T + A = 1)
            \<and> (distinct [r, t, a] \<and> psi \<notin> {Some r, Some t, Some a} \<and> delta \<notin> {Some r, Some t, Some a}
                 \<longrightarrow> mem st a = 1 - mem st r - mem st t
                     \<and> mem st r + mem st t + mem st a = 1)"
proof -
  let ?st = "simulate incidentCosTheta lambda polarization nIncident nExit layers
               reflectance transmittance absorptance psi delta memory"
  define R where "R = snd (stores ?st ! 0)"
  define T where "T = snd (stores ?st ! 1)"
  define A where "A = 1 - (if r = t then T else R) - T"
  define later where "later = drop 3 (stores ?st)"
  have log: "stores ?st = [(r, R), (t, T), (a, A)] @ later"
    using assms by (simp add: stores_simulate Let_def later_def R_def T_def A_def)
  have "set (map fst later) \<subseteq> {x. Some x \<in> {psi, delta}}"
    unfolding later_def drop_map [symmetric] targets_simulate
    using assms by (auto split: option.splits)
  then have later: "Some x = psi \<or> Some x = delta" if "x \<in> fst ` set later" for x
    using that by auto
  have first_three: "map fst (take 3 (stores ?st)) = [r, t, a]"
    "snd (stores ?st ! 2) = A"
    by (simp_all add: log)
  have final: "mem ?st r = R \<and> mem ?st t = T \<and> mem ?st a = 1 - R - T"
    if "distinct [r, t, a]" and "psi \<notin> {Some r, Some t, Some a}" and "delta \<notin> {Some r, Some t, Some a}"
  proof -
    from that later have untouched: "r \<notin> fst ` set later" "t \<notin> fst ` set later" "a \<notin> fst ` set later"
      by auto
    have "mem ?st = apply_stores (memory(r := R, t := T, a := A)) later"
      by (simp add: mem_simulate log apply_stores_Cons apply_stores_append)
    with untouched that(1) show ?thesis
      by (simp add: apply_stores_frame A_def)
  qed
  show ?thesis
    using first_three final unfolding Let_def A_def R_def T_def by simp
qed

lemma exact_real: "exact (Cx (Val x) (Val 0)) = complex_of_real x"
  by (simp add: exact_Cx complex_eq_iff)

lemma spec_running_products_Nil:
  "spec_running_products c lambda n [] = (identity_Matrix22, identity_Matrix22)"
  by (simp add: spec_running_products_def)

lemma spec_cos_bare_interface: "spec_cos 1 1 (Cx (Val (3/2)) (Val 0)) = 1"
proof -
  have "spec_cos 1 1 (Cx (Val (3/2)) (Val 0))
        = csqrt (1 - (1 - (exact 1)\<^sup>2) * (exact 1 / exact (Cx (Val (3/2)) (Val 0)))\<^sup>2)"
    by (rule spec_cos_principal) (simp add: exact_one)
  then show ?thesis
    by (simp add: exact_one)
qed

lemma locals_bare_interface:
  "exact (reflectionCoefficientP (simulate_locals 1 lambda 1 (Cx (Val (3/2)) (Val 0)) [])) = - (1/5)"
  "exact (reflectionCoefficientS (simulate_locals 1 lambda 1 (Cx (Val (3/2)) (Val 0)) [])) = - (1/5)"
  "exact (double_divide_complex (Val 2)
            (bP (simulate_locals 1 lambda 1 (Cx (Val (3/2)) (Val 0)) [])
             + cP (simulate_locals 1 lambda 1 (Cx (Val (3/2)) (Val 0)) [])
               / admittanceIncidentP (simulate_locals 1 lambda 1 (Cx (Val (3/2)) (Val 0)) []))
          * 1 / exitCosTheta (simulate_locals 1 lambda 1 (Cx (Val (3/2)) (Val 0)) [])) = 4/5"
  "exact (double_divide_complex (Val 2)
            (bS (simulate_locals 1 lambda 1 (Cx (Val (3/2)) (Val 0)) [])
             + cS (simulate_locals 1 lambda 1 (Cx (Val (3/2)) (Val 0)) [])
               / admittanceIncidentS (simulate_locals 1 lambda 1 (Cx (Val (3/2)) (Val 0)) []))) = 4/5"
  by (simp_all add: exact_coefficients spec_running_products_Nil spec_cos_bare_interface
      spec_r_def spec_t_def identity_Matrix22_def exact_one exact_real Let_def)

lemma weighted_equal: "spec_weighted polarization a a = (cmod a)\<^sup>2"
  unfolding spec_weighted_def
  by (simp only: distrib_right [symmetric] sin_cos_squared_add2 mult_1)

theorem simulate_absorptance_witness:
  "Some (5::nat) = Some 5 \<and> Some (6::nat) = Some 6 \<and> Some (7::nat) = Some 7
   \<and> stores (simulate 1 (Val 550) (Val (pi / 3)) 1 (Cx (Val (3/2)) (Val 0)) []
               (Some 5) (Some 6) (Some 7) None None (\<lambda>_. 0))
       = [(5, 1/25), (6, 16/25), (7, 8/25)]
   \<and> (5::nat) \<noteq> 6 \<and> distinct [5::nat, 6, 7]
   \<and> None \<notin> {Some (5::nat), Some 6, Some 7}
   \<and> mem (simulate 1 (Val 550) (Val (pi / 3)) 1 (Cx (Val (3/2)) (Val 0)) []
            (Some 5) (Some 6) (Some 7) None None (\<lambda>_. 0)) 7 = 8/25
   \<and> mem (simulate 1 (Val 550) (Val (pi / 3)) 1 (Cx (Val (3/2)) (Val 0)) []
            (Some 5) (Some 6) (Some 7) None None (\<lambda>_. 0)) 5
     + mem (simulate 1 (Val 550) (Val (pi / 3)) 1 (Cx (Val (3/2)) (Val 0)) []
            (Some 5) (Some 6) (Some 7) None None (\<lambda>_. 0)) 6
     + mem (simulate 1 (Val 550) (Val (pi / 3)) 1 (Cx (Val (3/2)) (Val 0)) []
            (Some 5) (Some 6) (Some 7) None None (\<lambda>_. 0)) 7 = 1"
proof -
  have log: "stores (simulate 1 (Val 550) (Val (pi / 3)) 1 (Cx (Val (3/2)) (Val 0)) []
               (Some 5) (Some 6) (Some 7) None None (\<lambda>_. 0))
       = [(5, 1/25), (6, 16/25), (7, 8/25)]"
    by (simp add: stores_simulate Let_def locals_bare_interface weighted_equal
        norm_divide power_divide)
  show ?thesis
    using simulate_absorptance [of "Some 5" 5 "Some 6" 6 "Some 7" 7 1 "Val 550" "Val (pi / 3)" 1
        "Cx (Val (3/2)) (Val 0)" "[]" None None "\<lambda>_. 0"]
    by (simp add: Let_def log mem_simulate apply_stores_def)
qed

text \<open>
  Claim C8. With no layer, \<open>nIncident = 1\<close>, \<open>nExit = 1.5\<close> and
  \<open>incidentCosTheta = 1\<close>, the reflectance stored is
  \<open>((1 - 1.5) / (1 + 1.5))\<^sup>2 = 0.04\<close> for every polarization angle (and every
  wavelength), and \<open>|r_P|\<^sup>2\<close> and \<open>|r_S|\<^sup>2\<close> are both 0.04. The value is what the
  location holds at the end when no other pointer argument designates it.
\<close>

theorem simulate_bare_interface:
  "let v = simulate_locals 1 lambda 1 (Cx (Val (3/2)) (Val 0)) [];
       st = simulate 1 lambda polarization 1 (Cx (Val (3/2)) (Val 0)) []
              (Some r) transmittance absorptance psi delta memory
   in take 1 (stores st) = [(r, 1/25)]
      \<and> (Some r \<notin> {transmittance, absorptance, psi, delta} \<longrightarrow> mem st r = 1/25)
      \<and> (cmod (exact (reflectionCoefficientP v)))\<^sup>2 = 1/25
      \<and> (cmod (exact (reflectionCoefficientS v)))\<^sup>2 = 1/25
      \<and> val (std_norm (reflectionCoefficientP v)) = 1/25
      \<and> val (std_norm (reflectionCoefficientS v)) = 1/25
      \<and> ((1 - 3/2) / (1 + 3/2))\<^sup>2 = (1/25 :: real)"
proof -
  let ?st = "simulate 1 lambda polarization 1 (Cx (Val (3/2)) (Val 0)) []
              (Some r) transmittance absorptance psi delta memory"
  have first: "take 1 (stores ?st) = [(r, 1/25)]"
    by (simp add: stores_simulate Let_def locals_bare_interface weighted_equal
        norm_divide power_divide)
  then have "snd (stores ?st ! 0) = 1/25"
    by (cases "stores ?st") simp_all
  then have final: "mem ?st r = 1/25" if "Some r \<notin> {transmittance, absorptance, psi, delta}"
    using mem_simulate_reflectance [OF that, of 1 lambda polarization 1 "Cx (Val (3/2)) (Val 0)" "[]" memory]
    by simp
  from first final show ?thesis
    by (simp add: Let_def locals_bare_interface val_std_norm norm_divide power_divide)
qed

theorem simulate_bare_interface_witness:
  "take 1 (stores (simulate 1 (Val 550) (Val (pi / 3)) 1 (Cx (Val (3/2)) (Val 0)) []
                     (Some 0) None None None None (\<lambda>_. 0)))
     = [(0, 1/25)]
   \<and> Some (0::nat) \<notin> {None, None, None, None}
   \<and> mem (simulate 1 (Val 550) (Val (pi / 3)) 1 (Cx (Val (3/2)) (Val 0)) []
            (Some 0) None None None None (\<lambda>_. 0)) 0 = 1/25
   \<and> (cmod (exact (reflectionCoefficientP (simulate_locals 1 (Val 550) 1 (Cx (Val (3/2)) (Val 0)) []))))\<^sup>2 = 1/25
   \<and> (cmod (exact (reflectionCoefficientS (simulate_locals 1 (Val 550) 1 (Cx (Val (3/2)) (Val 0)) []))))\<^sup>2 = 1/25"
  using simulate_bare_interface [of "Val 550" "Val (pi / 3)" 0 None None None None "\<lambda>_. 0"]
  by (simp add: Let_def)

text \<open>
  Claim C1, with the square root the program takes and for the stacks the loop visits.
  On every input with a non-null \<^verbatim>\<open>reflectance\<close> pointer and fewer than \<open>2^31\<close>
  layers, the first assignment \<^verbatim>\<open>simulate\<close> makes stores, through that pointer,
  \<open>cos\<^sup>2(polarization) |r_P|\<^sup>2 + sin\<^sup>2(polarization) |r_S|\<^sup>2\<close>, where for each basis
  \<open>r = (B - C / Y_inc) / (B + C / Y_inc)\<close>, \<open>B = M.m11 + M.m12 Y_exit\<close> and
  \<open>C = M.m21 + M.m22 Y_exit\<close> for the product \<open>M\<close> of the layer matrices of the basis,
  \<open>Yp_inc = n_inc / cos\<theta>_inc\<close>, \<open>Ys_inc = n_inc cos\<theta>_inc\<close>, and the exit admittances
  are formed in the same way from
  \<open>cos\<theta>_exit = \<plusminus> sqrt (1 - (1 - cos\<theta>_inc\<^sup>2) (n_inc / n_exit)\<^sup>2)\<close>: the principal root,
  except that it is the opposite root when the radicand the program computes is a
  negative real with imaginary part \<open>-0\<close>. The numbers are the exact complex numbers the
  program's values stand for. The value is what the location holds at the end when no
  other pointer argument designates the same location.
\<close>

theorem simulate_reflectance:
  assumes "reflectance = Some r" and "length layers < 2 ^ 31"
  shows "let c = exact incidentCosTheta;
             n_inc = exact nIncident;
             n_exit = exact nExit;
             Yp_inc = n_inc / c;
             Ys_inc = n_inc * c;
             branch = (if below_cut (snell_radicand incidentCosTheta nIncident nExit) then - 1 else 1);
             cos_exit = branch * csqrt (1 - (1 - c\<^sup>2) * (n_inc / n_exit)\<^sup>2);
             Yp_exit = n_exit / cos_exit;
             Ys_exit = n_exit * cos_exit;
             M_P = fst (spec_running_products incidentCosTheta lambda nIncident layers);
             M_S = snd (spec_running_products incidentCosTheta lambda nIncident layers);
             B_P = m11 M_P + m12 M_P * Yp_exit;
             C_P = m21 M_P + m22 M_P * Yp_exit;
             B_S = m11 M_S + m12 M_S * Ys_exit;
             C_S = m21 M_S + m22 M_S * Ys_exit;
             r_P = (B_P - C_P / Yp_inc) / (B_P + C_P / Yp_inc);
             r_S = (B_S - C_S / Ys_inc) / (B_S + C_S / Ys_inc);
             R = (cos (val polarization))\<^sup>2 * (cmod r_P)\<^sup>2 + (sin (val polarization))\<^sup>2 * (cmod r_S)\<^sup>2;
             st = simulate incidentCosTheta lambda polarization nIncident nExit layers
                    reflectance transmittance absorptance psi delta memory
         in take 1 (stores st) = [(r, R)]
            \<and> (Some r \<notin> {transmittance, absorptance, psi, delta} \<longrightarrow> mem st r = R)"
proof -
  let ?st = "simulate incidentCosTheta lambda polarization nIncident nExit layers
                    reflectance transmittance absorptance psi delta memory"
  define R where
    "R = spec_weighted polarization
           (spec_r (fst (spec_running_products incidentCosTheta lambda nIncident layers))
              (exact nIncident / exact incidentCosTheta)
              (exact nExit / spec_cos incidentCosTheta nIncident nExit))
           (spec_r (snd (spec_running_products incidentCosTheta lambda nIncident layers))
              (exact nIncident * exact incidentCosTheta)
              (exact nExit * spec_cos incidentCosTheta nIncident nExit))"
  have first: "take 1 (stores ?st) = [(r, R)]"
    using assms by (simp add: stores_simulate Let_def exact_coefficients R_def)
  then have "snd (stores ?st ! 0) = R"
    by (cases "stores ?st") simp_all
  then have final: "mem ?st r = R" if "Some r \<notin> {transmittance, absorptance, psi, delta}"
    using mem_simulate_reflectance [OF that, of incidentCosTheta lambda polarization nIncident nExit layers memory]
    by (simp add: assms)
  from first final show ?thesis
    unfolding R_def spec_weighted_def spec_r_def spec_cos_def Let_def by simp
qed

text \<open>
  Claim C3, with the square root the program takes and for the stacks the loop visits.
  On every input with non-null \<^verbatim>\<open>reflectance\<close> and \<^verbatim>\<open>transmittance\<close> pointers and
  fewer than \<open>2^31\<close> layers, the second assignment stores, through \<^verbatim>\<open>transmittance\<close>,
  \<open>cos\<^sup>2(polarization) |t_P|\<^sup>2 + sin\<^sup>2(polarization) |t_S|\<^sup>2\<close> with
  \<open>t_S = 2 / (B_S + C_S / Ys_inc)\<close> and \<open>t_P = 2 / (B_P + C_P / Yp_inc)\<close> scaled by
  \<open>cos\<theta>_inc / cos\<theta>_exit\<close>, where \<open>cos\<theta>_exit\<close> is the principal root of the radicand,
  or the opposite root when the radicand the program computes is a negative real with
  imaginary part \<open>-0\<close>. The warning is printed if and only if the imaginary part of
  \<open>nIncident\<close> is not zero; the function goes on and the value stored is the same
  expression in both cases.
\<close>

theorem simulate_transmittance:
  assumes "reflectance = Some r" and "transmittance = Some t" and "length layers < 2 ^ 31"
  shows "let c = exact incidentCosTheta;
             n_inc = exact nIncident;
             n_exit = exact nExit;
             Yp_inc = n_inc / c;
             Ys_inc = n_inc * c;
             branch = (if below_cut (snell_radicand incidentCosTheta nIncident nExit) then - 1 else 1);
             cos_exit = branch * csqrt (1 - (1 - c\<^sup>2) * (n_inc / n_exit)\<^sup>2);
             Yp_exit = n_exit / cos_exit;
             Ys_exit = n_exit * cos_exit;
             M_P = fst (spec_running_products incidentCosTheta lambda nIncident layers);
             M_S = snd (spec_running_products incidentCosTheta lambda nIncident layers);
             B_P = m11 M_P + m12 M_P * Yp_exit;
             C_P = m21 M_P + m22 M_P * Yp_exit;
             B_S = m11 M_S + m12 M_S * Ys_exit;
             C_S = m21 M_S + m22 M_S * Ys_exit;
             t_P = 2 / (B_P + C_P / Yp_inc) * (c / cos_exit);
             t_S = 2 / (B_S + C_S / Ys_inc);
             T = (cos (val polarization))\<^sup>2 * (cmod t_P)\<^sup>2 + (sin (val polarization))\<^sup>2 * (cmod t_S)\<^sup>2;
             st = simulate incidentCosTheta lambda polarization nIncident nExit layers
                    reflectance transmittance absorptance psi delta memory
         in map fst (take 2 (stores st)) = [r, t]
            \<and> stores st ! 1 = (t, T)
            \<and> (Some t \<notin> {absorptance, psi, delta} \<longrightarrow> mem st t = T)
            \<and> stderr st = (if Im n_inc \<noteq> 0 then [warning] else [])
            \<and> (stderr st \<noteq> [] \<longleftrightarrow> Im n_inc \<noteq> 0)"
proof -
  let ?st = "simulate incidentCosTheta lambda polarization nIncident nExit layers
                    reflectance transmittance absorptance psi delta memory"
  define T where
    "T = spec_weighted polarization
           (spec_t (fst (spec_running_products incidentCosTheta lambda nIncident layers))
              (exact nIncident / exact incidentCosTheta)
              (exact nExit / spec_cos incidentCosTheta nIncident nExit)
            * exact incidentCosTheta / spec_cos incidentCosTheta nIncident nExit)
           (spec_t (snd (spec_running_products incidentCosTheta lambda nIncident layers))
              (exact nIncident * exact incidentCosTheta)
              (exact nExit * spec_cos incidentCosTheta nIncident nExit))"
  have first: "map fst (take 2 (stores ?st)) = [r, t]" "stores ?st ! 1 = (t, T)"
    using assms by (simp_all add: stores_simulate Let_def exact_coefficients T_def)
  then have "snd (stores ?st ! 1) = T"
    by simp
  then have final: "mem ?st t = T" if "Some t \<notin> {absorptance, psi, delta}"
    using mem_simulate_transmittance [OF that, of incidentCosTheta lambda polarization nIncident nExit layers r memory]
    by (simp add: assms)
  have diag: "stderr ?st = (if Im (exact nIncident) \<noteq> 0 then [warning] else [])"
    using assms by (simp add: stderr_simulate)
  from first final diag show ?thesis
    unfolding T_def spec_weighted_def spec_t_def spec_cos_def Let_def by simp
qed

text \<open>
  Claim C4, with the square root and the argument the program takes and for the stacks
  the loop visits. On every input with non-null \<^verbatim>\<open>psi\<close> and \<^verbatim>\<open>delta\<close> pointers and
  fewer than \<open>2^31\<close> layers, the last two assignments store \<open>psi\<close> and \<open>delta\<close>, with
  \<open>psi = atan2 (|r_P|, |r_S|)\<close> for the reflection coefficients \<open>r_P\<close> and \<open>r_S\<close> of the
  stack (formed as for the reflectance). \<open>delta\<close> is \<open>arg r_P - arg r_S\<close> when neither
  coefficient is a real number \<open>\<le> 0\<close>; on that half-line \<^verbatim>\<open>std::arg\<close> returns \<open>\<pi>\<close>,
  \<open>-\<pi>\<close> or \<open>0\<close> by the signs of the zeros, and \<open>delta\<close> is \<open>arg r_P - arg r_S\<close> up to
  a multiple of \<open>2\<pi>\<close> when both coefficients are not zero. The two values are the same
  whatever the \<^verbatim>\<open>reflectance\<close>, \<^verbatim>\<open>transmittance\<close> and \<^verbatim>\<open>absorptance\<close> pointers are;
  with the three pointers null they are the only assignments.
\<close>

theorem simulate_psi_delta:
  assumes "psi = Some p" and "delta = Some d" and "length layers < 2 ^ 31"
  shows "let c = exact incidentCosTheta;
             n_inc = exact nIncident;
             n_exit = exact nExit;
             Yp_inc = n_inc / c;
             Ys_inc = n_inc * c;
             branch = (if below_cut (snell_radicand incidentCosTheta nIncident nExit) then - 1 else 1);
             cos_exit = branch * csqrt (1 - (1 - c\<^sup>2) * (n_inc / n_exit)\<^sup>2);
             Yp_exit = n_exit / cos_exit;
             Ys_exit = n_exit * cos_exit;
             M_P = fst (spec_running_products incidentCosTheta lambda nIncident layers);
             M_S = snd (spec_running_products incidentCosTheta lambda nIncident layers);
             B_P = m11 M_P + m12 M_P * Yp_exit;
             C_P = m21 M_P + m22 M_P * Yp_exit;
             B_S = m11 M_S + m12 M_S * Ys_exit;
             C_S = m21 M_S + m22 M_S * Ys_exit;
             r_P = (B_P - C_P / Yp_inc) / (B_P + C_P / Yp_inc);
             r_S = (B_S - C_S / Ys_inc) / (B_S + C_S / Ys_inc);
             psi_value = spec_atan2 (cmod r_P) (cmod r_S);
             st = simulate incidentCosTheta lambda polarization nIncident nExit layers
                    reflectance transmittance absorptance psi delta memory;
             stored = drop (length (stores st) - 2) (stores st);
             delta_value = snd (stored ! 1)
         in map fst stored = [p, d]
            \<and> snd (stored ! 0) = psi_value
            \<and> ((Im r_P \<noteq> 0 \<or> 0 < Re r_P) \<and> (Im r_S \<noteq> 0 \<or> 0 < Re r_S)
                 \<longrightarrow> delta_value = Arg r_P - Arg r_S)
            \<and> (r_P \<noteq> 0 \<and> r_S \<noteq> 0 \<longrightarrow> cis delta_value = cis (Arg r_P - Arg r_S))
            \<and> mem st d = delta_value
            \<and> (p \<noteq> d \<longrightarrow> mem st p = psi_value)
            \<and> stores (simulate incidentCosTheta lambda polarization nIncident nExit layers
                        None None None psi delta memory) = stored"
proof -
  let ?v = "simulate_locals incidentCosTheta lambda nIncident nExit layers"
  let ?st = "simulate incidentCosTheta lambda polarization nIncident nExit layers
               reflectance transmittance absorptance psi delta memory"
  define r_P where
    "r_P = spec_r (fst (spec_running_products incidentCosTheta lambda nIncident layers))
              (exact nIncident / exact incidentCosTheta)
              (exact nExit / spec_cos incidentCosTheta nIncident nExit)"
  define r_S where
    "r_S = spec_r (snd (spec_running_products incidentCosTheta lambda nIncident layers))
              (exact nIncident * exact incidentCosTheta)
              (exact nExit * spec_cos incidentCosTheta nIncident nExit)"
  define psi_value where "psi_value = spec_atan2 (cmod r_P) (cmod r_S)"
  define delta_value where
    "delta_value = val (std_arg (reflectionCoefficientP ?v) - std_arg (reflectionCoefficientS ?v))"
  have coefficients: "exact (reflectionCoefficientP ?v) = r_P" "exact (reflectionCoefficientS ?v) = r_S"
    using assms(3) by (simp_all add: exact_coefficients r_P_def r_S_def)
  obtain earlier where log: "stores ?st = earlier @ [(p, psi_value), (d, delta_value)]"
    using assms by (simp add: stores_simulate Let_def coefficients psi_value_def delta_value_def)
  then have last_two: "drop (length (stores ?st) - 2) (stores ?st) = [(p, psi_value), (d, delta_value)]"
    by simp
  have "stores ?st = (earlier @ [(p, psi_value)]) @ (d, delta_value) # []"
    by (simp add: log)
  then have delta_kept: "mem ?st d = delta_value"
    by (simp only: mem_simulate) (rule apply_stores_kept, simp)
  have psi_kept: "mem ?st p = psi_value" if "p \<noteq> d"
    using that by (simp only: mem_simulate log) (rule apply_stores_kept, simp)
  have alone: "stores (simulate incidentCosTheta lambda polarization nIncident nExit layers
                        None None None psi delta memory) = [(p, psi_value), (d, delta_value)]"
    using assms by (simp add: stores_simulate Let_def coefficients psi_value_def delta_value_def)
  have exactly: "delta_value = Arg r_P - Arg r_S"
    if "(Im r_P \<noteq> 0 \<or> 0 < Re r_P) \<and> (Im r_S \<noteq> 0 \<or> 0 < Re r_S)"
    using that by (simp add: delta_value_def val_minus val_std_arg_Arg coefficients)
  have modulo: "cis delta_value = cis (Arg r_P - Arg r_S)" if "r_P \<noteq> 0 \<and> r_S \<noteq> 0"
    using that cis_difference_std_arg [of "reflectionCoefficientP ?v" "reflectionCoefficientS ?v"]
    by (simp add: delta_value_def coefficients)
  from last_two delta_kept psi_kept alone exactly modulo show ?thesis
    unfolding psi_value_def r_P_def r_S_def spec_r_def spec_cos_def Let_def by simp
qed

section \<open>The branch of the square root\<close>

text \<open>
  Real media at oblique or normal incidence: all three arguments have the imaginary part
  \<open>+0\<close>. The radicand \<^verbatim>\<open>1. - (1. - c*c) * ratio*ratio\<close> then has the imaginary part
  \<open>-0\<close>: \<^verbatim>\<open>1. - z\<close> negates the imaginary part of \<open>z\<close>.
\<close>

lemma signed_zero_plus: "signed_zero s + Val a = Val a" "Val a + signed_zero s = Val a"
  by (simp_all add: signed_zero_def plus_double_def)

lemma snell_radicand_real_media:
  assumes "0 < x" and "x \<le> 1" and "0 < a" and "0 < b"
  shows "snell_radicand (Cx (Val x) (Val 0)) (Cx (Val a) (Val 0)) (Cx (Val b) (Val 0))
         = Cx (Val (1 - (1 - x * x) * (a / b) * (a / b))) NegZero"
proof -
  have ratio: "Cx (Val a) (Val 0) / Cx (Val b) (Val 0) = Cx (Val (a / b)) (Val 0)"
    using assms by (simp add: complex_double_arith double_arith)
  have square: "Cx (Val x) (Val 0) * Cx (Val x) (Val 0) = Cx (Val (x * x)) (Val 0)"
    using assms by (simp add: complex_double_arith double_arith)
  have sine: "double_minus_complex (Val 1) (Cx (Val (x * x)) (Val 0)) = Cx (Val (1 - x * x)) NegZero"
    using assms by (simp add: complex_double_arith double_arith)
  have "0 \<le> 1 - x * x"
    using assms by (simp add: mult_le_one)
  moreover have "0 < a / b"
    using assms by simp
  ultimately have products:
    "Cx (Val (1 - x * x)) NegZero * Cx (Val (a / b)) (Val 0) * Cx (Val (a / b)) (Val 0)
     = Cx (Val ((1 - x * x) * (a / b) * (a / b))) (Val 0)"
    by (cases "1 - x * x = 0") (simp_all add: complex_double_arith double_arith signed_zero_plus)
  have last: "double_minus_complex (Val 1) (Cx (Val ((1 - x * x) * (a / b) * (a / b))) (Val 0))
        = Cx (Val (1 - (1 - x * x) * (a / b) * (a / b))) NegZero"
    by (simp add: complex_double_arith double_arith)
  show ?thesis
    unfolding snell_radicand_def ratio square sine products last ..
qed

text \<open>
  So between real media the program's cosine is the principal root when the radicand is
  not negative, and \<open>-i sqrt |x|\<close> under total internal reflection, when it is.
\<close>

lemma spec_cos_real_media:
  assumes "0 < x" and "x \<le> 1" and "0 < a" and "0 < b"
  shows "spec_cos (Cx (Val x) (Val 0)) (Cx (Val a) (Val 0)) (Cx (Val b) (Val 0))
         = (if 1 - (1 - x * x) * (a / b) * (a / b) < 0
            then - \<i> * complex_of_real (sqrt ((1 - x * x) * (a / b) * (a / b) - 1))
            else complex_of_real (sqrt (1 - (1 - x * x) * (a / b) * (a / b))))"
proof -
  define rad where "rad = 1 - (1 - x * x) * (a / b) * (a / b)"
  have cut: "below_cut (snell_radicand (Cx (Val x) (Val 0)) (Cx (Val a) (Val 0)) (Cx (Val b) (Val 0)))
             \<longleftrightarrow> rad < 0"
    using assms by (simp add: snell_radicand_real_media below_cut_def rad_def)
  have "1 - (1 - (exact (Cx (Val x) (Val 0)))\<^sup>2)
              * (exact (Cx (Val a) (Val 0)) / exact (Cx (Val b) (Val 0)))\<^sup>2
        = complex_of_real rad"
    by (simp add: exact_real rad_def power2_eq_square)
  then have "spec_cos (Cx (Val x) (Val 0)) (Cx (Val a) (Val 0)) (Cx (Val b) (Val 0))
             = (if rad < 0 then - 1 else 1) * csqrt (complex_of_real rad)"
    by (simp only: spec_cos_def cut)
  also have "\<dots> = (if rad < 0 then - \<i> * complex_of_real (sqrt (- rad))
                     else complex_of_real (sqrt rad))"
    by (simp add: csqrt_of_real')
  finally show ?thesis
    by (simp add: rad_def)
qed

lemma spec_cos_value:
  assumes "w\<^sup>2 = 1 - (1 - (exact c)\<^sup>2) * (exact n_inc / exact n)\<^sup>2" and "0 < Re w"
  shows "spec_cos c n_inc n = w"
proof -
  let ?rad = "1 - (1 - (exact c)\<^sup>2) * (exact n_inc / exact n)\<^sup>2"
  have root: "csqrt ?rad = w"
    using assms by (intro csqrt_unique) simp_all
  have "\<not> (Im ?rad = 0 \<and> Re ?rad < 0)"
  proof
    assume "Im ?rad = 0 \<and> Re ?rad < 0"
    then have "csqrt ?rad = \<i> * complex_of_real (sqrt \<bar>Re ?rad\<bar>)"
      by (intro csqrt_of_real_nonpos) simp_all
    then have "Re (csqrt ?rad) = 0"
      by simp
    with root assms(2) show False
      by simp
  qed
  then have "spec_cos c n_inc n = csqrt ?rad"
    by (intro spec_cos_principal) auto
  with root show ?thesis
    by simp
qed

lemma Arg_positive:
  assumes "0 < Im z"
  shows "0 < Arg z"
proof (rule ccontr)
  assume "\<not> 0 < Arg z"
  then have "0 \<le> - Arg z" "- Arg z \<le> pi"
    using Arg_bounded [of z] by simp_all
  then have "0 \<le> sin (- Arg z)"
    by (rule sin_ge_zero)
  then have "Im (cis (Arg z)) \<le> 0"
    by simp
  moreover from assms have "z \<noteq> 0"
    by auto
  then have "cis (Arg z) = sgn z"
    by (rule cis_Arg)
  moreover have "0 < Im (sgn z)"
    using assms \<open>z \<noteq> 0\<close> by (simp add: sgn_eq)
  ultimately show False
    by simp
qed

lemma Arg_negative:
  assumes "Im z < 0"
  shows "Arg z < 0"
proof (rule ccontr)
  assume "\<not> Arg z < 0"
  then have "0 \<le> Arg z" "Arg z \<le> pi"
    using Arg_bounded [of z] by simp_all
  then have "0 \<le> sin (Arg z)"
    by (rule sin_ge_zero)
  then have "0 \<le> Im (cis (Arg z))"
    by simp
  moreover from assms have "z \<noteq> 0"
    by auto
  then have "cis (Arg z) = sgn z"
    by (rule cis_Arg)
  moreover have "Im (sgn z) < 0"
    using assms \<open>z \<noteq> 0\<close> by (simp add: sgn_eq divide_neg_pos)
  ultimately show False
    by simp
qed

end
